theory Spec2Isabelle
  imports Main "HOL-Library.Word" "HOL-Library.AList" "HOL-Library.Sublist"
begin

section \<open>Purrfect Universe marketplace: offers, bids and settlement\<close>

text \<open>
  The model follows the marketplace contract v2.2 (\<^verbatim>\<open>src/unnamed/part_002\<close>) with its
  bids system (\<^verbatim>\<open>src/bids.ts\<close>) and the record classes of
  \<^verbatim>\<open>utilities/marketplace-complex\<close> (third document of \<^verbatim>\<open>src/marketplace.ts\<close>).
  Where a claim also names the earlier marketplace (second document of
  \<^verbatim>\<open>src/marketplace.ts\<close>), that entry point is modelled next to the new one with the
  suffix \<open>_v1\<close>.

  Conventions.
  \<^item> \<open>u64\<close>, \<open>u8\<close> and \<open>u256\<close> are machine words: \<open>+\<close>, \<open>-\<close> and \<open>*\<close> wrap, \<open>div\<close> is the
    unsigned division of AssemblyScript.
  \<^item> An entry point is a function from the call context, the serialized arguments and the
    state to \<open>error + state\<close>. Every \<^verbatim>\<open>assert\<close>, \<^verbatim>\<open>expect\<close> and failing host call is an
    \<open>Inl\<close>; the host persists nothing of an aborted call, which \<open>invoke\<close> expresses.
  \<^item> The serialized arguments are the list of the values that were serialized; reading a
    value of another kind than the next one is the failure of \<^verbatim>\<open>expect\<close>.
  \<^item> The datastore is an association list from keys to values, one value per key. Values
    are kept decoded (\<open>stored\<close>); decoding a slot as another kind of record is the decode
    error. \<^verbatim>\<open>Storage.getKeys\<close> enumerates the keys in the order of the list; the
    sources do not state the host's order, and no theorem below depends on it.
  \<^item> Everything the contract does to the outside (coin transfers, calls into a collection
    contract, deferred messages, events) and every datastore write is appended to
    \<open>trace\<close>, in program order. Coin transfers are recorded, not checked against a
    balance: gas and the balance of the contract are outside the model.
\<close>

type_synonym u8 = "8 word"
type_synonym u64 = "64 word"
type_synonym u256 = "256 word"

subsection \<open>Records of \<^verbatim>\<open>marketplace-complex\<close>\<close>

record CollectionDetail =
  name :: string
  desc :: string
  address :: string
  externalWebsite :: string
  bannerImage :: string
  backgroundImage :: string
  collectionLogoImage :: string

record SellOffer =
  collectionAddress :: string
  tokenId :: string
  price :: u64
  creatorAddress :: string
  expirationTime :: u64
  createdTime :: u64

record Bid =
  bidder :: string
  amount :: u64
  timestamp :: u64

datatype stored =
    SOffer SellOffer
  | SBid Bid
  | SCollection CollectionDetail
  | SU64 u64
  | SString string

fun deserialize_SellOffer :: "stored \<Rightarrow> SellOffer option" where
  "deserialize_SellOffer (SOffer x) = Some x"
| "deserialize_SellOffer _ = None"

fun deserialize_Bid :: "stored \<Rightarrow> Bid option" where
  "deserialize_Bid (SBid x) = Some x"
| "deserialize_Bid _ = None"

fun bytesToU64 :: "stored \<Rightarrow> u64 option" where
  "bytesToU64 (SU64 x) = Some x"
| "bytesToU64 _ = None"

fun bytesToString :: "stored \<Rightarrow> string option" where
  "bytesToString (SString x) = Some x"
| "bytesToString _ = None"

subsection \<open>Host: context, arguments, errors, effects\<close>

text \<open>
  \<open>now\<close> is \<^verbatim>\<open>Context.timestamp()\<close> (the record \<open>Bid\<close> has a field \<open>timestamp\<close> of
  its own). \<open>isAddressEoa\<close> and \<open>strictDelete\<close> are the host's: which addresses are
  externally-owned accounts, and whether deleting a key that is not stored fails.
\<close>

record Context =
  caller :: string
  callee :: string
  now :: u64
  transferredCoins :: u64
  isAddressEoa :: "string \<Rightarrow> bool"
  strictDelete :: bool

datatype arg = AString string | AU256 u256 | AU64 u64

datatype error =
    Abort string
  | KeyNotFound string
  | CallFailed string

record Message =
  target :: string
  functionName :: string
  validityStartPeriod :: u64
  validityStartThread :: u8
  validityEndPeriod :: u64
  validityEndThread :: u8
  maxGas :: u64
  rawFee :: u64
  msgCoins :: u64
  functionParams :: "arg list"

datatype effect =
    Transfer string u64
  | Call string string "arg list" u64
  | Send Message
  | Emit string
  | Write string stored
  | Delete string

record state =
  storage :: "(string \<times> stored) list"
  ownerOf :: "string \<Rightarrow> u256 \<Rightarrow> string"
  isApprovedForAll :: "string \<Rightarrow> string \<Rightarrow> string \<Rightarrow> bool"
  trace :: "effect list"

fun nextString :: "arg list \<Rightarrow> string \<Rightarrow> error + (string \<times> arg list)" where
  "nextString (AString x # rest) msg = Inr (x, rest)"
| "nextString _ msg = Inl (Abort msg)"

fun nextU256 :: "arg list \<Rightarrow> string \<Rightarrow> error + (u256 \<times> arg list)" where
  "nextU256 (AU256 x # rest) msg = Inr (x, rest)"
| "nextU256 _ msg = Inl (Abort msg)"

fun nextU64 :: "arg list \<Rightarrow> string \<Rightarrow> error + (u64 \<times> arg list)" where
  "nextU64 (AU64 x # rest) msg = Inr (x, rest)"
| "nextU64 _ msg = Inl (Abort msg)"

subsection \<open>Decimal printing\<close>

fun toString :: "nat \<Rightarrow> string" where
  "toString n =
     (if n < 10 then [''0123456789'' ! n]
      else toString (n div 10) @ [''0123456789'' ! (n mod 10)])"

declare toString.simps [simp del]

definition u256_toString :: "u256 \<Rightarrow> string" where
  "u256_toString t = toString (unat t)"

definition u64_toString :: "u64 \<Rightarrow> string" where
  "u64_toString t = toString (unat t)"

subsection \<open>Datastore primitives\<close>

definition Storage_has :: "state \<Rightarrow> string \<Rightarrow> bool" where
  "Storage_has s k = (map_of (storage s) k \<noteq> None)"

definition Storage_get :: "state \<Rightarrow> string \<Rightarrow> error + stored" where
  "Storage_get s k =
     (case map_of (storage s) k of None \<Rightarrow> Inl (KeyNotFound k) | Some v \<Rightarrow> Inr v)"

definition Storage_set :: "string \<Rightarrow> stored \<Rightarrow> state \<Rightarrow> state" where
  "Storage_set k v s =
     s\<lparr>storage := AList.update k v (storage s), trace := trace s @ [Write k v]\<rparr>"

definition delete_entry :: "string \<Rightarrow> state \<Rightarrow> state" where
  "delete_entry k s =
     s\<lparr>storage := AList.delete k (storage s), trace := trace s @ [Delete k]\<rparr>"

text \<open>
  The sources do not say what the host does when \<^verbatim>\<open>Storage.del\<close> is given a key that
  is not stored. The context carries the answer: with \<open>strictDelete\<close> the call fails,
  without it the datastore is left as it is.
\<close>

definition Storage_del :: "Context \<Rightarrow> string \<Rightarrow> state \<Rightarrow> error + state" where
  "Storage_del ctx k s =
     (if strictDelete ctx \<and> \<not> Storage_has s k then Inl (KeyNotFound k)
      else Inr (delete_entry k s))"

definition Storage_getKeys :: "state \<Rightarrow> string \<Rightarrow> string list" where
  "Storage_getKeys s p = filter (prefix p) (map fst (storage s))"

text \<open>
  The host makes a transfer fail when the balance of the contract does not cover it. The
  balance is outside the model: a transfer is recorded in the trace and goes through.
\<close>

definition transferCoins :: "string \<Rightarrow> u64 \<Rightarrow> state \<Rightarrow> state" where
  "transferCoins to amt s = s\<lparr>trace := trace s @ [Transfer to amt]\<rparr>"

definition generateEvent :: "string \<Rightarrow> state \<Rightarrow> state" where
  "generateEvent e s = s\<lparr>trace := trace s @ [Emit e]\<rparr>"

definition sendMessage :: "Message \<Rightarrow> state \<Rightarrow> state" where
  "sendMessage m s = s\<lparr>trace := trace s @ [Send m]\<rparr>"


text \<open>
  A top-level call either commits the state it computed or, on any error, leaves the
  state it started from.
\<close>

definition invoke :: "(state \<Rightarrow> error + state) \<Rightarrow> state \<Rightarrow> error option \<times> state" where
  "invoke f s = (case f s of Inl e \<Rightarrow> (Some e, s) | Inr s' \<Rightarrow> (None, s'))"

subsection \<open>Calls into a collection contract\<close>

text \<open>
  \<open>ownerOf\<close> and \<open>isApprovedForAll\<close> are the answers of the collection contract to the
  read calls of the same names; the marketplace takes them as they are.
\<close>

text \<open>
  Modelled from the spec: the \<^verbatim>\<open>transferFrom\<close> of a collection contract, whose
  \<^verbatim>\<open>NFT-internals\<close> are not among the sources. It moves the token from \<open>from\<close> to
  \<open>to\<close> and fails if \<open>from\<close> is not the owner or the calling contract is not
  authorised by the owner (approvals of a single token are left out). The coins sent
  along with the call are recorded in the trace.
\<close>

definition call_transferFrom ::
  "string \<Rightarrow> string \<Rightarrow> string \<Rightarrow> string \<Rightarrow> u256 \<Rightarrow> u64 \<Rightarrow> state \<Rightarrow> error + state" where
  "call_transferFrom operator collection from to tokenID coins s =
     (if ownerOf s collection tokenID = from \<and>
         (operator = from \<or> isApprovedForAll s collection from operator)
      then Inr (s\<lparr>ownerOf := (ownerOf s)(collection := (ownerOf s collection)(tokenID := to)),
                 trace := trace s @
                   [Call collection ''transferFrom''
                      [AString from, AString to, AU256 tokenID] coins]\<rparr>)
      else Inl (CallFailed ''transferFrom''))"

subsection \<open>Marketplace v2.2: common values and helpers\<close>

definition MARKETPLACE_OWNER_KEY :: string where
  "MARKETPLACE_OWNER_KEY = ''MARKETPLACE_OWNER''"

definition MARKETPLACE_FEE_KEY :: string where
  "MARKETPLACE_FEE_KEY = ''MARKETPLACE_FEE''"

definition SELL_OFFER_PREFIX :: string where
  "SELL_OFFER_PREFIX = ''sellOffer_''"

definition COLLECTION_PREFIX :: string where
  "COLLECTION_PREFIX = ''collection_''"

definition BID_PREFIX :: string where
  "BID_PREFIX = ''bid_''"

definition genesisTimestamp :: u64 where
  "genesisTimestamp = 1705312800000"

definition t0 :: u64 where
  "t0 = 16000"

definition thread_count :: u64 where
  "thread_count = 32"

text \<open>
  The source's helper names start with an underscore (\<^verbatim>\<open>_hasCollection\<close>,
  \<^verbatim>\<open>_keyGenerator\<close>, \<^verbatim>\<open>_getNFTOwner\<close>, \<^verbatim>\<open>_marketplaceOwner\<close>,
  \<^verbatim>\<open>_bidKeyGenerator\<close>); here they are written without it.
\<close>

definition marketplaceOwner :: "state \<Rightarrow> error + string" where
  "marketplaceOwner s =
     (case Storage_get s MARKETPLACE_OWNER_KEY of
        Inl e \<Rightarrow> Inl e
      | Inr raw \<Rightarrow>
          (case bytesToString raw of
             None \<Rightarrow> Inl (Abort ''bytesToString'')
           | Some x \<Rightarrow> Inr x))"

definition hasCollection :: "state \<Rightarrow> string \<Rightarrow> bool" where
  "hasCollection s collectionAddress' = Storage_has s (COLLECTION_PREFIX @ collectionAddress')"

definition keyGenerator :: "string \<Rightarrow> u256 \<Rightarrow> string" where
  "keyGenerator addr tokenID = SELL_OFFER_PREFIX @ addr @ ''_'' @ u256_toString tokenID"

definition getNFTOwner :: "state \<Rightarrow> string \<Rightarrow> u256 \<Rightarrow> string" where
  "getNFTOwner s addr tokenID = ownerOf s addr tokenID"

definition calculateMarketplaceFee :: "state \<Rightarrow> u64 \<Rightarrow> error + u64" where
  "calculateMarketplaceFee s amt =
     (case Storage_get s MARKETPLACE_FEE_KEY of
        Inl e \<Rightarrow> Inl e
      | Inr raw \<Rightarrow>
          (case bytesToU64 raw of
             None \<Rightarrow> Inl (Abort ''bytesToU64'')
           | Some marketplaceFee \<Rightarrow> Inr ((amt div 100) * marketplaceFee)))"

subsection \<open>Bids system (\<^verbatim>\<open>bids.ts\<close>)\<close>

definition bidKeyGenerator :: "string \<Rightarrow> u256 \<Rightarrow> string \<Rightarrow> string" where
  "bidKeyGenerator collectionAddress' tokenID bidder' =
     BID_PREFIX @ collectionAddress' @ ''_'' @ u256_toString tokenID @ ''_'' @ bidder'"

text \<open>
  The loop of \<^verbatim>\<open>resetBids\<close> over the keys enumerated before it starts. A key that
  is no longer in the datastore makes \<^verbatim>\<open>Storage.get\<close> fail.
\<close>

fun resetBids_loop ::
  "Context \<Rightarrow> string \<Rightarrow> string list \<Rightarrow> state \<Rightarrow> error + state" where
  "resetBids_loop ctx tokenBuyer [] s = Inr s"
| "resetBids_loop ctx tokenBuyer (bidKey # allKeys) s =
     (case Storage_get s bidKey of
        Inl e \<Rightarrow> Inl e
      | Inr storedData \<Rightarrow>
          (case deserialize_Bid storedData of
             None \<Rightarrow> Inl (Abort ''DESERIALIZATION_ERROR'')
           | Some bidData \<Rightarrow>
               (case Storage_del ctx bidKey
                       (if tokenBuyer = [] \<or> bidder bidData \<noteq> tokenBuyer
                        then transferCoins (bidder bidData) (amount bidData) s
                        else s) of
                  Inl e \<Rightarrow> Inl e
                | Inr s1 \<Rightarrow> resetBids_loop ctx tokenBuyer allKeys s1)))"

text \<open>
  One iteration of that loop once the record is decoded: the refund, unless the bidder is
  the buyer, and the deletion of the key.
\<close>

definition refund_step :: "string \<Rightarrow> string \<Rightarrow> Bid \<Rightarrow> state \<Rightarrow> state" where
  "refund_step b k bid s =
     delete_entry k (if b = [] \<or> bidder bid \<noteq> b
                    then transferCoins (bidder bid) (amount bid) s else s)"

definition resetBids ::
  "Context \<Rightarrow> string \<Rightarrow> u256 \<Rightarrow> string \<Rightarrow> state \<Rightarrow> error + state" where
  "resetBids ctx collectionAddress' tokenID tokenBuyer s =
     resetBids_loop ctx tokenBuyer
       (Storage_getKeys s (BID_PREFIX @ collectionAddress' @ ''_'' @ u256_toString tokenID)) s"

definition placeBid :: "Context \<Rightarrow> arg list \<Rightarrow> state \<Rightarrow> error + state" where
  "placeBid ctx binaryArgs s =
     (case nextString binaryArgs ''Collection address not entered.'' of
        Inl e \<Rightarrow> Inl e
      | Inr (collectionAddress', args1) \<Rightarrow>
     (case nextU256 args1 ''TokenID not entered.'' of
        Inl e \<Rightarrow> Inl e
      | Inr (nftTokenId, args2) \<Rightarrow>
     (let bidAmount = transferredCoins ctx in
      if \<not> hasCollection s collectionAddress'
      then Inl (Abort ''Collection not found in marketplace'')
      else
      let key = keyGenerator collectionAddress' nftTokenId in
      if \<not> Storage_has s key then Inl (Abort ''Sell offer doesn't exist'')
      else
      let bidder' = caller ctx;
          bidTime = now ctx;
          bidKey = bidKeyGenerator collectionAddress' nftTokenId bidder'
      in
      (case (if Storage_has s bidKey
             then (case Storage_get s bidKey of
                     Inl e \<Rightarrow> Inl e
                   | Inr storedData \<Rightarrow>
                       (case deserialize_Bid storedData of
                          None \<Rightarrow>
                            Inl (Abort ''DESERIALIZATION_ERROR, REFUND IS NOT COMPLETED.'')
                        | Some bidData \<Rightarrow>
                            Inr (transferCoins (bidder bidData) (amount bidData) s)))
             else Inr s) of
         Inl e \<Rightarrow> Inl e
       | Inr s1 \<Rightarrow>
           let bid = \<lparr>bidder = bidder', amount = bidAmount, timestamp = bidTime\<rparr>;
               s2 = Storage_set bidKey (SBid bid) s1
           in Inr (generateEvent
                     (bidder' @ '' placed a bid on '' @ collectionAddress' @ '' token '' @
                      u256_toString nftTokenId @ '' with amount '' @ u64_toString bidAmount)
                     s2)))))"

definition removeBid :: "Context \<Rightarrow> arg list \<Rightarrow> state \<Rightarrow> error + state" where
  "removeBid ctx binaryArgs s =
     (case nextString binaryArgs ''Enter collection address'' of
        Inl e \<Rightarrow> Inl e
      | Inr (collectionAddress', args1) \<Rightarrow>
     (case nextU256 args1 ''Enter token id'' of
        Inl e \<Rightarrow> Inl e
      | Inr (nftTokenId, args2) \<Rightarrow>
     (let bidder' = caller ctx;
          bidKey = bidKeyGenerator collectionAddress' nftTokenId bidder'
      in
      if \<not> Storage_has s bidKey then Inl (Abort ''Bid not found'')
      else
      (case Storage_get s bidKey of
         Inl e \<Rightarrow> Inl e
       | Inr storedData \<Rightarrow>
           (case deserialize_Bid storedData of
              None \<Rightarrow> Inl (Abort ''DESERIALIZATION_ERROR'')
            | Some bidData \<Rightarrow>
                Storage_del ctx bidKey (transferCoins bidder' (amount bidData) s))))))"

definition acceptBid :: "Context \<Rightarrow> arg list \<Rightarrow> state \<Rightarrow> error + state" where
  "acceptBid ctx binaryArgs s =
     (case nextString binaryArgs ''Collection address not entered.'' of
        Inl e \<Rightarrow> Inl e
      | Inr (collectionAddress', args1) \<Rightarrow>
     (case nextU256 args1 ''TokenID not entered.'' of
        Inl e \<Rightarrow> Inl e
      | Inr (nftTokenId, args2) \<Rightarrow>
     (case nextString args2 ''Bidder address not entered.'' of
        Inl e \<Rightarrow> Inl e
      | Inr (bidder', args3) \<Rightarrow>
     (let bidKey = bidKeyGenerator collectionAddress' nftTokenId bidder';
          sellOfferKey = keyGenerator collectionAddress' nftTokenId
      in
      if \<not> Storage_has s bidKey then Inl (Abort ''Bid not found'')
      else
      (case Storage_get s bidKey of
         Inl e \<Rightarrow> Inl e
       | Inr storedData \<Rightarrow>
      (case deserialize_Bid storedData of
         None \<Rightarrow> Inl (Abort ''DESERIALIZATION_ERROR'')
       | Some bidData \<Rightarrow>
      (let owner = getNFTOwner s collectionAddress' nftTokenId in
       if owner \<noteq> caller ctx then Inl (Abort ''You are not the owner of the NFT'')
       else
       (case call_transferFrom (callee ctx) collectionAddress' owner bidder' nftTokenId
               10000000 s of
          Inl e \<Rightarrow> Inl e
        | Inr s1 \<Rightarrow>
       (case calculateMarketplaceFee s1 (amount bidData) of
          Inl e \<Rightarrow> Inl e
        | Inr feeAmount \<Rightarrow>
       (let remainingAmount = amount bidData - feeAmount;
            s2 = transferCoins owner remainingAmount s1;
            s3 = generateEvent
                   (caller ctx @ '' accepted a bid from '' @ bidder' @ '' on '' @
                    collectionAddress' @ '' token '' @ u256_toString nftTokenId @
                    '' for amount '' @ u64_toString (amount bidData)) s2
        in
        (case Storage_del ctx bidKey s3 of
           Inl e \<Rightarrow> Inl e
         | Inr s4 \<Rightarrow>
        (case resetBids ctx collectionAddress' nftTokenId bidder' s4 of
           Inl e \<Rightarrow> Inl e
         | Inr s5 \<Rightarrow> Storage_del ctx sellOfferKey s5))))))))))))"

subsection \<open>Marketplace v2.2: offers (\<^verbatim>\<open>part_002\<close>)\<close>

text \<open>
  \<^verbatim>\<open>t0 / thread_count\<close> is a division of two 32-bit constants (500) whose result is
  widened for the 64-bit division; \<^verbatim>\<open>floor\<close> of an integer is that integer; the
  cast \<^verbatim>\<open>as u8\<close> keeps the low eight bits.
\<close>

definition sellOffer :: "Context \<Rightarrow> arg list \<Rightarrow> state \<Rightarrow> error + state" where
  "sellOffer ctx binaryArgs s =
     (case nextString binaryArgs ''Collection address not entered.'' of
        Inl e \<Rightarrow> Inl e
      | Inr (collectionAddress', args1) \<Rightarrow>
     (case nextU256 args1 ''TokenID not entered.'' of
        Inl e \<Rightarrow> Inl e
      | Inr (nftTokenId, args2) \<Rightarrow>
     (case nextU64 args2 ''Exptected Price not entered.'' of
        Inl e \<Rightarrow> Inl e
      | Inr (price', args3) \<Rightarrow>
     (case nextU64 args3 ''Expire In not entered.'' of
        Inl e \<Rightarrow> Inl e
      | Inr (expireIn, args4) \<Rightarrow>
     (let expirationTime' = now ctx + expireIn;
          creatorAddress' = caller ctx;
          createdTime' = now ctx
      in
      if \<not> isAddressEoa ctx creatorAddress'
      then Inl (Abort ''Smart contract address is not support.'')
      else if \<not> (expirationTime' > now ctx)
      then Inl (Abort ''The end time must be greater than the Context.timestamp()'')
      else if \<not> hasCollection s collectionAddress'
      then Inl (Abort ''Collection or Item not found in marketplace'')
      else
      let key = keyGenerator collectionAddress' nftTokenId in
      if Storage_has s key then Inl (Abort ''Sell offer already exist'')
      else
      let owner = getNFTOwner s collectionAddress' nftTokenId in
      if owner \<noteq> creatorAddress'
      then Inl (Abort (''You are not the owner of NFT owner:'' @ owner @
                       '' callerAddress: '' @ creatorAddress'))
      else
      let approved = isApprovedForAll s collectionAddress' creatorAddress' (callee ctx) in
      if \<not> approved then Inl (Abort ''Marketplace not approved for trading'')
      else
      let newSellOffer =
            \<lparr>collectionAddress = collectionAddress',
             tokenId = u256_toString nftTokenId,
             price = price',
             creatorAddress = creatorAddress',
             expirationTime = expirationTime',
             createdTime = createdTime'\<rparr>;
          s1 = Storage_set key (SOffer newSellOffer) s;
          startPeriod = (expirationTime' - genesisTimestamp) div t0;
          startThread =
            (ucast ((expirationTime' - genesisTimestamp - startPeriod * t0) div
                    (t0 div thread_count)) :: u8);
          endPeriod = startPeriod + 10;
          endThread = (31 :: u8);
          s2 = sendMessage
                 \<lparr>target = callee ctx,
                  functionName = ''autonomousDeleteOffer'',
                  validityStartPeriod = startPeriod,
                  validityStartThread = startThread,
                  validityEndPeriod = endPeriod,
                  validityEndThread = endThread,
                  maxGas = 1000000000,
                  rawFee = 50000000,
                  msgCoins = 0,
                  functionParams = [AString collectionAddress', AU256 nftTokenId]\<rparr> s1
      in Inr (generateEvent
                (''autonomous remove started for the '' @ collectionAddress' @ ''_'' @
                 u256_toString nftTokenId) s2))))))"

definition removeSellOffer :: "Context \<Rightarrow> arg list \<Rightarrow> state \<Rightarrow> error + state" where
  "removeSellOffer ctx binaryArgs s =
     (case nextString binaryArgs ''Collection address not entered.'' of
        Inl e \<Rightarrow> Inl e
      | Inr (collectionAddress', args1) \<Rightarrow>
     (case nextU256 args1 ''Token ID not entered'' of
        Inl e \<Rightarrow> Inl e
      | Inr (nftTokenId, args2) \<Rightarrow>
     (if \<not> hasCollection s collectionAddress'
      then Inl (Abort ''Collection not found in marketplace'')
      else
      let key = keyGenerator collectionAddress' nftTokenId in
      if \<not> Storage_has s key then Inl (Abort ''Sell offer doesnt exist'')
      else
      let owner = getNFTOwner s collectionAddress' nftTokenId in
      if owner \<noteq> caller ctx then Inl (Abort ''You are not the owner of NFT'')
      else
      (case resetBids ctx collectionAddress' nftTokenId [] s of
         Inl e \<Rightarrow> Inl e
       | Inr s1 \<Rightarrow>
      (case Storage_del ctx key s1 of
         Inl e \<Rightarrow> Inl e
       | Inr s2 \<Rightarrow>
           Inr (generateEvent (''REMOVE_SELL_OFFER : '' @ caller ctx) s2))))))"

definition buyOffer :: "Context \<Rightarrow> arg list \<Rightarrow> state \<Rightarrow> error + state" where
  "buyOffer ctx binaryArgs s =
     (case nextString binaryArgs ''Collection address not entered.'' of
        Inl e \<Rightarrow> Inl e
      | Inr (collectionAddress', args1) \<Rightarrow>
     (case nextU256 args1 ''TokenID not entered.'' of
        Inl e \<Rightarrow> Inl e
      | Inr (nftTokenId, args2) \<Rightarrow>
     (if \<not> hasCollection s collectionAddress'
      then Inl (Abort ''Collection not found in marketplace'')
      else
      let key = keyGenerator collectionAddress' nftTokenId in
      if \<not> Storage_has s key then Inl (Abort ''Sell offer doesnt exist'')
      else
      (case Storage_get s key of
         Inl e \<Rightarrow> Inl e
       | Inr storedData \<Rightarrow>
      (case deserialize_SellOffer storedData of
         None \<Rightarrow> Inl (Abort ''DESERIALIZATION_ERROR'')
       | Some sellOfferData \<Rightarrow>
      (let expirationTime' = expirationTime sellOfferData in
       if \<not> (now ctx \<le> expirationTime') then Inl (Abort ''Sell offer has expired'')
       else if \<not> (transferredCoins ctx \<ge> price sellOfferData)
       then Inl (Abort ''Could not send enough coins to buy this NFT'')
       else
       let owner = getNFTOwner s collectionAddress' nftTokenId;
           address' = caller ctx
       in
       if \<not> isAddressEoa ctx address' then Inl (Abort ''Smart contract cant buy.'')
       else
       (case call_transferFrom (callee ctx) collectionAddress' owner address' nftTokenId
               10000000 s of
          Inl e \<Rightarrow> Inl e
        | Inr s1 \<Rightarrow>
       (case calculateMarketplaceFee s1 (price sellOfferData) of
          Inl e \<Rightarrow> Inl e
        | Inr feeAmount \<Rightarrow>
       (let remainingCoins = price sellOfferData - feeAmount in
        (case marketplaceOwner s1 of
           Inl e \<Rightarrow> Inl e
         | Inr mpOwner \<Rightarrow>
        (let s2 = transferCoins mpOwner feeAmount s1;
             s3 = transferCoins owner remainingCoins s2;
             s4 = generateEvent
                    (caller ctx @ '' bought this '' @ u256_toString nftTokenId @
                     '' NFT at this '' @ u64_toString (price sellOfferData) @ '' price'') s3
         in
         (case resetBids ctx collectionAddress' nftTokenId [] s4 of
            Inl e \<Rightarrow> Inl e
          | Inr s5 \<Rightarrow> Storage_del ctx key s5))))))))))))"

definition autonomousDeleteOffer :: "Context \<Rightarrow> arg list \<Rightarrow> state \<Rightarrow> error + state" where
  "autonomousDeleteOffer ctx binaryArgs s =
     (case nextString binaryArgs ''Collection address not entered.'' of
        Inl e \<Rightarrow> Inl e
      | Inr (collectionAddress', args1) \<Rightarrow>
     (case nextU256 args1 ''TokenID not entered.'' of
        Inl e \<Rightarrow> Inl e
      | Inr (tokenID, args2) \<Rightarrow>
     (let caller' = caller ctx in
      if caller' \<noteq> callee ctx then Inl (Abort ''You are not root SC.'')
      else
      let key = keyGenerator collectionAddress' tokenID;
          check = Storage_has s key
      in
      if \<not> check then Inl (Abort ''sell offer not found'')
      else
      (case Storage_del ctx key s of
         Inl e \<Rightarrow> Inl e
       | Inr s1 \<Rightarrow> Inr (generateEvent (key @ '' expired and removed'') s1)))))"

definition onlyOwner :: "Context \<Rightarrow> state \<Rightarrow> error + bool" where
  "onlyOwner ctx s =
     (case marketplaceOwner s of
        Inl e \<Rightarrow> Inl e
      | Inr mpOwner \<Rightarrow> Inr (caller ctx = mpOwner))"

definition adminDeleteCollection :: "Context \<Rightarrow> arg list \<Rightarrow> state \<Rightarrow> error + state" where
  "adminDeleteCollection ctx binaryArgs s =
     (case onlyOwner ctx s of
        Inl e \<Rightarrow> Inl e
      | Inr isOwner \<Rightarrow>
     (if \<not> isOwner then Inl (Abort ''The caller is not the owner of the contract'')
      else
      (case nextString binaryArgs ''Collection address not entered'' of
         Inl e \<Rightarrow> Inl e
       | Inr (collectionSCAddress, args1) \<Rightarrow>
      (let key = COLLECTION_PREFIX @ collectionSCAddress;
           has = Storage_has s key
       in
       if \<not> has then Inl (Abort ''Collection is not found'')
       else Storage_del ctx key s))))"

subsection \<open>The earlier marketplace (second document of \<^verbatim>\<open>marketplace.ts\<close>)\<close>

definition genesisTimestamp_v1 :: u64 where
  "genesisTimestamp_v1 = 1704289800000"

definition sellOffer_v1 :: "Context \<Rightarrow> arg list \<Rightarrow> state \<Rightarrow> error + state" where
  "sellOffer_v1 ctx binaryArgs s =
     (case nextString binaryArgs ''unwrap'' of
        Inl e \<Rightarrow> Inl e
      | Inr (collectionAddress', args1) \<Rightarrow>
     (case nextU256 args1 ''unwrap'' of
        Inl e \<Rightarrow> Inl e
      | Inr (nftTokenId, args2) \<Rightarrow>
     (case nextU64 args2 ''unwrap'' of
        Inl e \<Rightarrow> Inl e
      | Inr (price', args3) \<Rightarrow>
     (case nextU64 args3 ''unwrap'' of
        Inl e \<Rightarrow> Inl e
      | Inr (expireIn, args4) \<Rightarrow>
     (let expirationTime' = now ctx + expireIn;
          creatorAddress' = caller ctx;
          createdTime' = now ctx
      in
      if \<not> hasCollection s collectionAddress'
      then Inl (Abort ''Collection or Item not found in marketplace'')
      else
      let key = keyGenerator collectionAddress' nftTokenId in
      if Storage_has s key then Inl (Abort ''Sell offer already exist'')
      else
      let owner = getNFTOwner s collectionAddress' nftTokenId in
      if owner \<noteq> creatorAddress'
      then Inl (Abort (''You are not the owner of NFT owner:'' @ owner @
                       '' callerAddress: '' @ creatorAddress'))
      else
      let approved = isApprovedForAll s collectionAddress' creatorAddress' (callee ctx) in
      if \<not> approved then Inl (Abort ''Marketplace not approved for trading'')
      else
      let newSellOffer =
            \<lparr>collectionAddress = collectionAddress',
             tokenId = u256_toString nftTokenId,
             price = price',
             creatorAddress = creatorAddress',
             expirationTime = expirationTime',
             createdTime = createdTime'\<rparr>;
          s1 = Storage_set key (SOffer newSellOffer) s;
          startPeriod = (expirationTime' - genesisTimestamp_v1) div t0;
          startThread =
            (ucast ((expirationTime' - genesisTimestamp_v1 - startPeriod * t0) div
                    (t0 div thread_count)) :: u8);
          endPeriod = startPeriod + 10;
          endThread = (31 :: u8)
      in Inr (sendMessage
                \<lparr>target = callee ctx,
                 functionName = ''autonomousDeleteOffer'',
                 validityStartPeriod = startPeriod,
                 validityStartThread = startThread,
                 validityEndPeriod = endPeriod,
                 validityEndThread = endThread,
                 maxGas = 500000000,
                 rawFee = 0,
                 msgCoins = 0,
                 functionParams = [AString collectionAddress', AU256 nftTokenId]\<rparr> s1))))))"

definition removeSellOffer_v1 :: "Context \<Rightarrow> arg list \<Rightarrow> state \<Rightarrow> error + state" where
  "removeSellOffer_v1 ctx binaryArgs s =
     (case nextString binaryArgs ''Collection address not entered.'' of
        Inl e \<Rightarrow> Inl e
      | Inr (collectionAddress', args1) \<Rightarrow>
     (case nextU256 args1 ''Token ID not entered'' of
        Inl e \<Rightarrow> Inl e
      | Inr (nftTokenId, args2) \<Rightarrow>
     (if \<not> hasCollection s collectionAddress'
      then Inl (Abort ''Collection not found in marketplace'')
      else
      let key = keyGenerator collectionAddress' nftTokenId in
      if \<not> Storage_has s key then Inl (Abort ''Sell offer doesnt exist'')
      else
      (case Storage_get s key of
         Inl e \<Rightarrow> Inl e
       | Inr storedData \<Rightarrow>
      (case deserialize_SellOffer storedData of
         None \<Rightarrow> Inl (Abort ''DESERIALIZATION_ERROR'')
       | Some sellOfferData \<Rightarrow>
      (if creatorAddress sellOfferData \<noteq> caller ctx
       then Inl (Abort ''Only the creator can remove the sell offer'')
       else
       let owner = getNFTOwner s collectionAddress' nftTokenId in
       if owner \<noteq> caller ctx then Inl (Abort ''You are not the owner of NFT'')
       else
       (case Storage_del ctx key s of
          Inl e \<Rightarrow> Inl e
        | Inr s1 \<Rightarrow>
            Inr (generateEvent (''REMOVE_SELL_OFFER : '' @ caller ctx) s1))))))))"

definition buyOffer_v1 :: "Context \<Rightarrow> arg list \<Rightarrow> state \<Rightarrow> error + state" where
  "buyOffer_v1 ctx binaryArgs s =
     (case nextString binaryArgs ''Collection address not entered.'' of
        Inl e \<Rightarrow> Inl e
      | Inr (collectionAddress', args1) \<Rightarrow>
     (case nextU256 args1 ''TokenID not entered.'' of
        Inl e \<Rightarrow> Inl e
      | Inr (nftTokenId, args2) \<Rightarrow>
     (if \<not> hasCollection s collectionAddress'
      then Inl (Abort ''Collection not found in marketplace'')
      else
      let key = keyGenerator collectionAddress' nftTokenId in
      if \<not> Storage_has s key then Inl (Abort ''Sell offer doesnt exist'')
      else
      (case Storage_get s key of
         Inl e \<Rightarrow> Inl e
       | Inr storedData \<Rightarrow>
      (case deserialize_SellOffer storedData of
         None \<Rightarrow> Inl (Abort ''DESERIALIZATION_ERROR'')
       | Some sellOfferData \<Rightarrow>
      (let expirationTime' = expirationTime sellOfferData in
       if \<not> (now ctx \<le> expirationTime') then Inl (Abort ''Sell offer has expired'')
       else if \<not> (transferredCoins ctx \<ge> price sellOfferData)
       then Inl (Abort
                  ''Could not send enough money or marketplace fees to buy this NFT'')
       else
       let owner = getNFTOwner s collectionAddress' nftTokenId;
           address' = caller ctx
       in
       (case call_transferFrom (callee ctx) collectionAddress' owner address' nftTokenId
               10000000 s of
          Inl e \<Rightarrow> Inl e
        | Inr s1 \<Rightarrow>
       (case Storage_get s1 MARKETPLACE_FEE_KEY of
          Inl e \<Rightarrow> Inl e
        | Inr raw \<Rightarrow>
       (case bytesToU64 raw of
          None \<Rightarrow> Inl (Abort ''bytesToU64'')
        | Some marketplaceFee \<Rightarrow>
       (let pricePercentage = (price sellOfferData div 100) * marketplaceFee;
            remainingCoins = price sellOfferData - pricePercentage;
            s2 = transferCoins owner remainingCoins s1;
            s3 = generateEvent
                   (caller ctx @ '' bought this '' @ u256_toString nftTokenId @
                    '' NFT at this '' @ u64_toString (price sellOfferData) @ '' price'') s2
        in Storage_del ctx key s3))))))))))"

subsection \<open>The exported functions of v2.2\<close>

text \<open>
  The host calls an exported function by its name; \<open>dispatch\<close> is that table for the
  functions modelled here.
\<close>

datatype entry =
    E_sellOffer | E_removeSellOffer | E_buyOffer | E_autonomousDeleteOffer
  | E_placeBid | E_removeBid | E_acceptBid | E_adminDeleteCollection

fun dispatch :: "entry \<Rightarrow> Context \<Rightarrow> arg list \<Rightarrow> state \<Rightarrow> error + state" where
  "dispatch E_sellOffer = sellOffer"
| "dispatch E_removeSellOffer = removeSellOffer"
| "dispatch E_buyOffer = buyOffer"
| "dispatch E_autonomousDeleteOffer = autonomousDeleteOffer"
| "dispatch E_placeBid = placeBid"
| "dispatch E_removeBid = removeBid"
| "dispatch E_acceptBid = acceptBid"
| "dispatch E_adminDeleteCollection = adminDeleteCollection"

subsection \<open>Records of one token\<close>

definition offers_for :: "state \<Rightarrow> string \<Rightarrow> u256 \<Rightarrow> (string \<times> stored) list" where
  "offers_for s c t = filter (\<lambda>kv. fst kv = keyGenerator c t) (storage s)"

definition bids_for :: "state \<Rightarrow> string \<Rightarrow> u256 \<Rightarrow> string \<Rightarrow> (string \<times> stored) list" where
  "bids_for s c t b = filter (\<lambda>kv. fst kv = bidKeyGenerator c t b) (storage s)"

subsection \<open>States that differ in one offer\<close>

text \<open>
  Two states that agree on everything except, at most, what is stored under the offer
  key of one token: the one may hold an offer where the other holds another offer, or
  none. On a host that rejects the deletion of a key that is not stored, the key is
  stored in both or in neither.
\<close>

definition same_but_offer :: "Context \<Rightarrow> string \<Rightarrow> u256 \<Rightarrow> state \<Rightarrow> state \<Rightarrow> bool" where
  "same_but_offer ctx c t x y \<longleftrightarrow>
     AList.delete (keyGenerator c t) (storage x) = AList.delete (keyGenerator c t) (storage y) \<and>
     (strictDelete ctx \<longrightarrow>
        (Storage_has x (keyGenerator c t) \<longleftrightarrow> Storage_has y (keyGenerator c t))) \<and>
     ownerOf x = ownerOf y \<and> isApprovedForAll x = isApprovedForAll y \<and> trace x = trace y"

subsection \<open>The expiry coordinate in the spec's words\<close>

text \<open>
  This definition follows the spec (section 4.4), not the source: the period is
  \<open>floor((expireAt - genesis) / t0)\<close>, the thread is
  \<open>floor(((expireAt - genesis) - period * t0) / (t0 / threadCount))\<close>, and the window
  runs to period + 10 and thread 31. The difference \<open>expireAt - genesis\<close> is the one of
  unsigned 64-bit arithmetic, as the spec's edge case says; everything after it is
  arithmetic on natural numbers.
\<close>

definition spec_coordinate :: "u64 \<Rightarrow> u64 \<Rightarrow> Message \<Rightarrow> bool" where
  "spec_coordinate expireAt genesis m \<longleftrightarrow>
     (let d = unat (expireAt - genesis);
          period = d div 16000;
          thread = (d - period * 16000) div (16000 div 32)
      in unat (validityStartPeriod m) = period \<and>
         unat (validityStartThread m) = thread \<and>
         unat (validityEndPeriod m) = period + 10 \<and>
         unat (validityEndThread m) = 31)"

subsection \<open>Example data\<close>

text \<open>
  Collection \<open>X\<close> is registered, the fee rate is 5, token 7 of \<open>X\<close> belongs to Alice, and
  every owner has approved every operator. Addresses starting with \<open>AU\<close> are accounts,
  and the host rejects the deletion of a key that is not stored.
\<close>

definition ex_config :: "(string \<times> stored) list" where
  "ex_config =
     [(''MARKETPLACE_FEE'', SU64 5),
      (''MARKETPLACE_OWNER'', SString ''AU_admin''),
      (''collection_X'',
       SCollection \<lparr>name = ''X'', desc = [], address = ''X'', externalWebsite = [],
                    bannerImage = [], backgroundImage = [], collectionLogoImage = []\<rparr>)]"

definition ex_unlisted :: "(string \<times> stored) list" where
  "ex_unlisted =
     [(''MARKETPLACE_FEE'', SU64 5),
      (''MARKETPLACE_OWNER'', SString ''AU_admin'')]"

definition ex_offer_record :: "u64 \<Rightarrow> u64 \<Rightarrow> SellOffer" where
  "ex_offer_record p expires =
     \<lparr>collectionAddress = ''X'', tokenId = ''7'', price = p,
      creatorAddress = ''AU_alice'', expirationTime = expires,
      createdTime = 1800000000000\<rparr>"

definition ex_offer :: "u64 \<Rightarrow> u64 \<Rightarrow> string \<times> stored" where
  "ex_offer p expires = (''sellOffer_X_7'', SOffer (ex_offer_record p expires))"

definition ex_bid :: "string \<Rightarrow> u64 \<Rightarrow> string \<times> stored" where
  "ex_bid who amt =
     (''bid_X_7_'' @ who, SBid \<lparr>bidder = who, amount = amt, timestamp = 1800000000000\<rparr>)"

definition ex_message :: "u64 \<Rightarrow> u64 \<Rightarrow> u64 \<Rightarrow> u64 \<Rightarrow> Message" where
  "ex_message period thread gas fee =
     \<lparr>target = ''AS_market'', functionName = ''autonomousDeleteOffer'',
      validityStartPeriod = period, validityStartThread = ucast thread,
      validityEndPeriod = period + 10, validityEndThread = 31,
      maxGas = gas, rawFee = fee, msgCoins = 0,
      functionParams = [AString ''X'', AU256 7]\<rparr>"

definition ex_state :: "(string \<times> stored) list \<Rightarrow> state" where
  "ex_state entries =
     \<lparr>storage = entries, ownerOf = (\<lambda>c t. ''AU_alice''),
      isApprovedForAll = (\<lambda>c ownr opr. True), trace = []\<rparr>"

definition ex_ctx :: "string \<Rightarrow> u64 \<Rightarrow> u64 \<Rightarrow> Context" where
  "ex_ctx who time coins =
     \<lparr>caller = who, callee = ''AS_market'', now = time, transferredCoins = coins,
      isAddressEoa = (\<lambda>a. take 2 a = ''AU''), strictDelete = True\<rparr>"

section \<open>Properties\<close>

subsection \<open>Host primitives\<close>

lemma delete_entry_simps:
  "storage (delete_entry k s) = AList.delete k (storage s)"
  "trace (delete_entry k s) = trace s @ [Delete k]"
  "ownerOf (delete_entry k s) = ownerOf s"
  "isApprovedForAll (delete_entry k s) = isApprovedForAll s"
  by (simp_all add: delete_entry_def)

lemma Storage_set_simps:
  "storage (Storage_set k v s) = AList.update k v (storage s)"
  "trace (Storage_set k v s) = trace s @ [Write k v]"
  "ownerOf (Storage_set k v s) = ownerOf s"
  "isApprovedForAll (Storage_set k v s) = isApprovedForAll s"
  by (simp_all add: Storage_set_def)

lemma transferCoins_simps:
  "storage (transferCoins a x s) = storage s"
  "trace (transferCoins a x s) = trace s @ [Transfer a x]"
  "ownerOf (transferCoins a x s) = ownerOf s"
  "isApprovedForAll (transferCoins a x s) = isApprovedForAll s"
  by (simp_all add: transferCoins_def)

lemma generateEvent_simps:
  "storage (generateEvent e s) = storage s"
  "trace (generateEvent e s) = trace s @ [Emit e]"
  "ownerOf (generateEvent e s) = ownerOf s"
  "isApprovedForAll (generateEvent e s) = isApprovedForAll s"
  by (simp_all add: generateEvent_def)

lemma sendMessage_simps:
  "storage (sendMessage m s) = storage s"
  "trace (sendMessage m s) = trace s @ [Send m]"
  "ownerOf (sendMessage m s) = ownerOf s"
  "isApprovedForAll (sendMessage m s) = isApprovedForAll s"
  by (simp_all add: sendMessage_def)

lemmas host_simps = delete_entry_simps Storage_set_simps transferCoins_simps
  generateEvent_simps sendMessage_simps

lemma Storage_del_stored: "Storage_has s k \<Longrightarrow> Storage_del ctx k s = Inr (delete_entry k s)"
  by (simp add: Storage_del_def)

lemma Storage_del_Inr:
  "Storage_del ctx k s = Inr s' \<longleftrightarrow>
     (strictDelete ctx \<longrightarrow> Storage_has s k) \<and> s' = delete_entry k s"
  by (auto simp: Storage_del_def)

lemma Storage_has_simps:
  "Storage_has (transferCoins a x s) k = Storage_has s k"
  "Storage_has (generateEvent e s) k = Storage_has s k"
  "Storage_has (sendMessage m s) k = Storage_has s k"
  "Storage_has (delete_entry k' s) k = (k \<noteq> k' \<and> Storage_has s k)"
  by (auto simp: Storage_has_def host_simps delete_conv')

lemma bid_key_not_offer_key: "bidKeyGenerator c' t' b \<noteq> keyGenerator c t"
  by (simp add: bidKeyGenerator_def keyGenerator_def BID_PREFIX_def SELL_OFFER_PREFIX_def)

lemma ex_keys:
  "keyGenerator ''X'' 7 = ''sellOffer_X_7''"
  "bidKeyGenerator ''X'' 7 b = ''bid_X_7_'' @ b"
  "u256_toString 7 = ''7''"
  by (simp_all add: keyGenerator_def bidKeyGenerator_def SELL_OFFER_PREFIX_def BID_PREFIX_def
        u256_toString_def toString.simps)

lemmas ex_defs = ex_message_def ex_config_def ex_unlisted_def ex_offer_record_def ex_offer_def ex_bid_def
  ex_state_def ex_ctx_def

lemmas eval_defs = ex_defs ex_keys Storage_has_def Storage_get_def Storage_del_def hasCollection_def
  COLLECTION_PREFIX_def getNFTOwner_def Let_def host_simps

lemma deserialize_SellOffer_Some [simp]:
  "deserialize_SellOffer v = Some x \<longleftrightarrow> v = SOffer x"
  by (cases v) auto

lemma deserialize_Bid_Some [simp]:
  "deserialize_Bid v = Some x \<longleftrightarrow> v = SBid x"
  by (cases v) auto

lemma stored_value:
  assumes "map_of (storage s) k = Some v"
  shows "Storage_has s k" and "Storage_get s k = Inr v"
  using assms by (simp_all add: Storage_has_def Storage_get_def)

lemma invoke_Inl: "f s = Inl e \<Longrightarrow> invoke f s = (Some e, s)"
  by (simp add: invoke_def)

lemma invoke_cases: "snd (invoke f s) = s \<or> f s = Inr (snd (invoke f s))"
  by (simp add: invoke_def split: sum.splits)

lemma not_Inr_Inl: "(\<forall>s'. r \<noteq> Inr s') \<Longrightarrow> \<exists>e. r = Inl e"
  by (cases r) auto

lemma filter_absent_key:
  "k \<notin> fst ` set xs \<Longrightarrow> filter (\<lambda>kv. fst kv = k) xs = []"
  by (induction xs) auto

lemma distinct_keys_one:
  "distinct (map fst xs) \<Longrightarrow> length (filter (\<lambda>kv. fst kv = k) xs) \<le> 1"
  by (induction xs) (auto simp: filter_absent_key)

subsection \<open>Accounts only\<close>

text \<open>
  C10. In the marketplace v2.2, \<open>sellOffer\<close> and \<open>buyOffer\<close> reject a caller that is not an
  externally-owned account: whatever the arguments, ownership, approval and payment are,
  the call aborts and the state is the one before the call.
\<close>

theorem eoa_only:
  "\<not> isAddressEoa ctx (caller ctx) \<Longrightarrow>
     (\<exists>e. invoke (sellOffer ctx sellArgs) s = (Some e, s)) \<and>
     (\<exists>e. invoke (buyOffer ctx buyArgs) s = (Some e, s))"
  by (auto simp: invoke_def sellOffer_def buyOffer_def Let_def
           split: sum.splits prod.splits option.splits)

text \<open>
  The contract \<open>AS_robot\<close> offers token 8 for sale, and pays the full price of the
  listed, unexpired token 7: both calls are turned away.
\<close>

theorem eoa_only_witness:
  "\<not> isAddressEoa (ex_ctx ''AS_robot'' 1800000000000 1000)
        (caller (ex_ctx ''AS_robot'' 1800000000000 1000)) \<and>
   (\<exists>e. invoke (sellOffer (ex_ctx ''AS_robot'' 1800000000000 1000)
                   [AString ''X'', AU256 8, AU64 1000, AU64 3600000])
           (ex_state (ex_config @ [ex_offer 1000 1800003600000])) =
         (Some e, ex_state (ex_config @ [ex_offer 1000 1800003600000]))) \<and>
   (\<exists>e. invoke (buyOffer (ex_ctx ''AS_robot'' 1800000000000 1000)
                   [AString ''X'', AU256 7])
           (ex_state (ex_config @ [ex_offer 1000 1800003600000])) =
         (Some e, ex_state (ex_config @ [ex_offer 1000 1800003600000])))"
  using eoa_only [of "ex_ctx ''AS_robot'' 1800000000000 1000"
                     "[AString ''X'', AU256 8, AU64 1000, AU64 3600000]"
                     "ex_state (ex_config @ [ex_offer 1000 1800003600000])"
                     "[AString ''X'', AU256 7]"]
  by (simp add: ex_ctx_def)

subsection \<open>Autonomous expiry\<close>

text \<open>
  C8. A call of \<open>autonomousDeleteOffer\<close> by the contract itself on a stored offer succeeds
  and deletes exactly the sell-offer record of that collection and token: every other
  key, and so every bid record, keeps its value, nothing is transferred (the trace grows
  by the deletion and the event only), and the collection contracts are untouched.
\<close>

theorem autonomousDeleteOffer_frame:
  assumes "caller ctx = callee ctx"
    and "Storage_has s (keyGenerator c t)"
  shows "\<exists>s'. autonomousDeleteOffer ctx (AString c # AU256 t # rest) s = Inr s' \<and>
     storage s' = AList.delete (keyGenerator c t) (storage s) \<and>
     map_of (storage s') (keyGenerator c t) = None \<and>
     (\<forall>k. k \<noteq> keyGenerator c t \<longrightarrow> map_of (storage s') k = map_of (storage s) k) \<and>
     (\<forall>c' t' b. map_of (storage s') (bidKeyGenerator c' t' b) =
        map_of (storage s) (bidKeyGenerator c' t' b)) \<and>
     trace s' = trace s @ [Delete (keyGenerator c t),
                           Emit (keyGenerator c t @ '' expired and removed'')] \<and>
     ownerOf s' = ownerOf s \<and> isApprovedForAll s' = isApprovedForAll s"
  using assms
  by (simp add: autonomousDeleteOffer_def Let_def Storage_del_stored host_simps delete_conv'
        bid_key_not_offer_key)

text \<open>
  The offer on token 7 expires while Bob and Carol have bids on it: the offer goes, both
  bids stay.
\<close>

theorem autonomousDeleteOffer_frame_witness:
  "caller (ex_ctx ''AS_market'' 1800003600000 0) = callee (ex_ctx ''AS_market'' 1800003600000 0) \<and>
   Storage_has
     (ex_state (ex_config @
        [ex_offer 1000 1800003600000, ex_bid ''AU_bob'' 100, ex_bid ''AU_carol'' 150]))
     (keyGenerator ''X'' 7) \<and>
   (\<exists>s'. autonomousDeleteOffer (ex_ctx ''AS_market'' 1800003600000 0)
            [AString ''X'', AU256 7]
            (ex_state (ex_config @
               [ex_offer 1000 1800003600000, ex_bid ''AU_bob'' 100, ex_bid ''AU_carol'' 150]))
          = Inr s' \<and>
      storage s' = ex_config @ [ex_bid ''AU_bob'' 100, ex_bid ''AU_carol'' 150] \<and>
      trace s' = [Delete ''sellOffer_X_7'', Emit ''sellOffer_X_7 expired and removed''])"
proof -
  let ?ctx = "ex_ctx ''AS_market'' 1800003600000 0"
  let ?s = "ex_state (ex_config @
        [ex_offer 1000 1800003600000, ex_bid ''AU_bob'' 100, ex_bid ''AU_carol'' 150])"
  have h1: "caller ?ctx = callee ?ctx"
    by (simp add: ex_ctx_def)
  have h2: "Storage_has ?s (keyGenerator ''X'' 7)"
    by (simp add: Storage_has_def ex_keys ex_defs)
  from autonomousDeleteOffer_frame [OF h1 h2, of "[]"]
  obtain s' where r: "autonomousDeleteOffer ?ctx [AString ''X'', AU256 7] ?s = Inr s'"
    and st: "storage s' = AList.delete (keyGenerator ''X'' 7) (storage ?s)"
    and tr: "trace s' = trace ?s @ [Delete (keyGenerator ''X'' 7),
                           Emit (keyGenerator ''X'' 7 @ '' expired and removed'')]"
    by blast
  have "storage s' = ex_config @ [ex_bid ''AU_bob'' 100, ex_bid ''AU_carol'' 150]"
    using st by (simp add: ex_keys ex_defs)
  moreover have "trace s' = [Delete ''sellOffer_X_7'', Emit ''sellOffer_X_7 expired and removed'']"
    using tr by (simp add: ex_keys ex_defs)
  ultimately show ?thesis using h1 h2 r by blast
qed

subsection \<open>What a listing writes\<close>

lemma sellOffer_storage:
  "sellOffer ctx args s = Inr s' \<Longrightarrow> \<exists>k v. storage s' = AList.update k v (storage s)"
  unfolding sellOffer_def Let_def
  by (fastforce simp: host_simps split: sum.splits prod.splits if_splits)

lemma sellOffer_v1_storage:
  "sellOffer_v1 ctx args s = Inr s' \<Longrightarrow> \<exists>k v. storage s' = AList.update k v (storage s)"
  unfolding sellOffer_v1_def Let_def
  by (fastforce simp: host_simps split: sum.splits prod.splits if_splits)

subsection \<open>Expired offers\<close>

text \<open>
  C6, as amended. When the stored sell offer of a collection and token has an
  \<open>expirationTime\<close> strictly below the current timestamp, \<open>buyOffer\<close> on it aborts and
  leaves the state as it was, in v2.2 and in the earlier marketplace. The error is the
  expiry error whenever the collection is still registered; the registration of the
  collection is checked first.
\<close>

theorem buyOffer_expired:
  assumes st: "map_of (storage s) (keyGenerator c t) = Some (SOffer offer)"
    and ex: "expirationTime offer < now ctx"
  shows "(\<exists>e. invoke (buyOffer ctx (AString c # AU256 t # rest)) s = (Some e, s)) \<and>
         (\<exists>e. invoke (buyOffer_v1 ctx (AString c # AU256 t # rest)) s = (Some e, s)) \<and>
         (hasCollection s c \<longrightarrow>
            buyOffer ctx (AString c # AU256 t # rest) s =
              Inl (Abort ''Sell offer has expired'') \<and>
            buyOffer_v1 ctx (AString c # AU256 t # rest) s =
              Inl (Abort ''Sell offer has expired''))"
proof -
  have late: "\<not> now ctx \<le> expirationTime offer"
    using ex by simp
  have b2: "buyOffer ctx (AString c # AU256 t # rest) s =
      (if hasCollection s c then Inl (Abort ''Sell offer has expired'')
       else Inl (Abort ''Collection not found in marketplace''))"
    by (simp add: buyOffer_def Let_def stored_value [OF st] late)
  have b1: "buyOffer_v1 ctx (AString c # AU256 t # rest) s =
      (if hasCollection s c then Inl (Abort ''Sell offer has expired'')
       else Inl (Abort ''Collection not found in marketplace''))"
    by (simp add: buyOffer_v1_def Let_def stored_value [OF st] late)
  show ?thesis
    by (simp add: b1 b2 invoke_def)
qed

text \<open>
  The claim as first stated promises the expiry error. After the administrator has
  removed collection \<open>X\<close> from the registry, the expired offer on token 7 is still
  stored, and \<open>buyOffer\<close> fails on the registry check instead.
\<close>

theorem buyOffer_expired_counterexample:
  "map_of (storage (ex_state (ex_unlisted @ [ex_offer 1000 1800003600000])))
     (keyGenerator ''X'' 7) = Some (SOffer (ex_offer_record 1000 1800003600000)) \<and>
   expirationTime (ex_offer_record 1000 1800003600000) <
     now (ex_ctx ''AU_bob'' 1800003600001 1000) \<and>
   buyOffer (ex_ctx ''AU_bob'' 1800003600001 1000) [AString ''X'', AU256 7]
     (ex_state (ex_unlisted @ [ex_offer 1000 1800003600000])) =
     Inl (Abort ''Collection not found in marketplace'')"
  by (simp add: buyOffer_def eval_defs)

text \<open>
  That state is what the administrator's \<open>adminDeleteCollection\<close> leaves when it removes
  collection \<open>X\<close> while the offer on token 7 is stored.
\<close>

lemma adminDeleteCollection_keeps_offers:
  "map_sum id storage
     (adminDeleteCollection (ex_ctx ''AU_admin'' 1800003600000 0) [AString ''X'']
        (ex_state (ex_config @ [ex_offer 1000 1800003600000]))) =
   Inr (ex_unlisted @ [ex_offer 1000 1800003600000])"
  by (simp add: adminDeleteCollection_def onlyOwner_def marketplaceOwner_def
        MARKETPLACE_OWNER_KEY_def eval_defs)

text \<open>
  Bob pays the full price one millisecond after the offer on token 7 has expired.
\<close>

theorem buyOffer_expired_witness:
  "map_of (storage (ex_state (ex_config @ [ex_offer 1000 1800003600000])))
     (keyGenerator ''X'' 7) = Some (SOffer (ex_offer_record 1000 1800003600000)) \<and>
   expirationTime (ex_offer_record 1000 1800003600000) <
     now (ex_ctx ''AU_bob'' 1800003600001 1000) \<and>
   hasCollection (ex_state (ex_config @ [ex_offer 1000 1800003600000])) ''X'' \<and>
   buyOffer (ex_ctx ''AU_bob'' 1800003600001 1000) [AString ''X'', AU256 7]
     (ex_state (ex_config @ [ex_offer 1000 1800003600000])) =
     Inl (Abort ''Sell offer has expired'') \<and>
   buyOffer_v1 (ex_ctx ''AU_bob'' 1800003600001 1000) [AString ''X'', AU256 7]
     (ex_state (ex_config @ [ex_offer 1000 1800003600000])) =
     Inl (Abort ''Sell offer has expired'')"
proof -
  let ?s = "ex_state (ex_config @ [ex_offer 1000 1800003600000])"
  let ?ctx = "ex_ctx ''AU_bob'' 1800003600001 1000"
  have st: "map_of (storage ?s) (keyGenerator ''X'' 7) =
      Some (SOffer (ex_offer_record 1000 1800003600000))"
    by (simp add: eval_defs)
  have ex: "expirationTime (ex_offer_record 1000 1800003600000) < now ?ctx"
    by (simp add: ex_defs)
  have hc: "hasCollection ?s ''X''"
    by (simp add: eval_defs)
  from buyOffer_expired [OF st ex, of "[]"] hc st ex
  show ?thesis by blast
qed

subsection \<open>Removing an offer\<close>

lemma removeSellOffer_Inr:
  "removeSellOffer ctx (AString c # AU256 t # rest) s = Inr s' \<Longrightarrow>
     ownerOf s c t = caller ctx \<and> Storage_has s (keyGenerator c t) \<and> hasCollection s c"
  by (simp add: removeSellOffer_def Let_def getNFTOwner_def split: if_splits)

lemma removeSellOffer_v1_Inr:
  "removeSellOffer_v1 ctx (AString c # AU256 t # rest) s = Inr s' \<Longrightarrow>
     ownerOf s c t = caller ctx \<and> hasCollection s c \<and>
     (\<exists>offer. map_of (storage s) (keyGenerator c t) = Some (SOffer offer) \<and>
              creatorAddress offer = caller ctx)"
  by (auto simp: removeSellOffer_v1_def Let_def getNFTOwner_def Storage_get_def
        split: if_splits option.splits)

text \<open>
  C2, as amended. In v2.2 \<open>removeSellOffer\<close> succeeds only when the offer is stored and
  the caller is the token's current owner, as read from the collection contract at the
  time of the call; the offer's creator is not looked at. In the earlier marketplace it
  succeeds only when the caller is both the stored offer's creator and the current owner.
  A call that fails a check aborts and leaves the state as it was.
\<close>

theorem removeSellOffer_checks:
  "(removeSellOffer ctx (AString c # AU256 t # rest) s = Inr s' \<longrightarrow>
      ownerOf s c t = caller ctx \<and> Storage_has s (keyGenerator c t)) \<and>
   (removeSellOffer_v1 ctx (AString c # AU256 t # rest) s = Inr s'' \<longrightarrow>
      ownerOf s c t = caller ctx \<and>
      (\<exists>offer. map_of (storage s) (keyGenerator c t) = Some (SOffer offer) \<and>
               creatorAddress offer = caller ctx)) \<and>
   (ownerOf s2 c t \<noteq> caller ctx2 \<longrightarrow>
      (\<exists>e. invoke (removeSellOffer ctx2 (AString c # AU256 t # rest)) s2 = (Some e, s2)) \<and>
      (\<exists>e. invoke (removeSellOffer_v1 ctx2 (AString c # AU256 t # rest)) s2 = (Some e, s2))) \<and>
   (map_of (storage s3) (keyGenerator c t) = Some (SOffer offer) \<and>
    creatorAddress offer \<noteq> caller ctx3 \<longrightarrow>
      (\<exists>e. invoke (removeSellOffer_v1 ctx3 (AString c # AU256 t # rest)) s3 = (Some e, s3)))"
proof (intro conjI impI)
  assume "removeSellOffer ctx (AString c # AU256 t # rest) s = Inr s'"
  from removeSellOffer_Inr [OF this]
  show "ownerOf s c t = caller ctx" and "Storage_has s (keyGenerator c t)" by simp_all
next
  assume "removeSellOffer_v1 ctx (AString c # AU256 t # rest) s = Inr s''"
  from removeSellOffer_v1_Inr [OF this]
  show "ownerOf s c t = caller ctx"
    and "\<exists>offer. map_of (storage s) (keyGenerator c t) = Some (SOffer offer) \<and>
               creatorAddress offer = caller ctx" by simp_all
next
  assume n: "ownerOf s2 c t \<noteq> caller ctx2"
  have "\<forall>x. removeSellOffer ctx2 (AString c # AU256 t # rest) s2 \<noteq> Inr x"
    using n removeSellOffer_Inr by blast
  then show "\<exists>e. invoke (removeSellOffer ctx2 (AString c # AU256 t # rest)) s2 = (Some e, s2)"
    using not_Inr_Inl invoke_Inl by metis
  have "\<forall>x. removeSellOffer_v1 ctx2 (AString c # AU256 t # rest) s2 \<noteq> Inr x"
    using n removeSellOffer_v1_Inr by blast
  then show "\<exists>e. invoke (removeSellOffer_v1 ctx2 (AString c # AU256 t # rest)) s2 = (Some e, s2)"
    using not_Inr_Inl invoke_Inl by metis
next
  assume a: "map_of (storage s3) (keyGenerator c t) = Some (SOffer offer) \<and>
    creatorAddress offer \<noteq> caller ctx3"
  have "\<forall>x. removeSellOffer_v1 ctx3 (AString c # AU256 t # rest) s3 \<noteq> Inr x"
  proof (intro allI notI)
    fix x assume "removeSellOffer_v1 ctx3 (AString c # AU256 t # rest) s3 = Inr x"
    from removeSellOffer_v1_Inr [OF this] a show False by auto
  qed
  then show "\<exists>e. invoke (removeSellOffer_v1 ctx3 (AString c # AU256 t # rest)) s3 = (Some e, s3)"
    using not_Inr_Inl invoke_Inl by metis
qed

lemmas reset_eval = resetBids_def Storage_getKeys_def BID_PREFIX_def

text \<open>
  Alice removes the offer she created on her token; Bob, who does not own it, cannot; and
  in the earlier marketplace Bob cannot remove Alice's offer even once the token is his.
\<close>

theorem removeSellOffer_checks_witness:
  "removeSellOffer (ex_ctx ''AU_alice'' 1800000000000 0) [AString ''X'', AU256 7]
     (ex_state (ex_config @ [ex_offer 1000 1800003600000])) =
     Inr ((ex_state ex_config)
            \<lparr>trace := [Delete ''sellOffer_X_7'', Emit ''REMOVE_SELL_OFFER : AU_alice'']\<rparr>) \<and>
   removeSellOffer_v1 (ex_ctx ''AU_alice'' 1800000000000 0) [AString ''X'', AU256 7]
     (ex_state (ex_config @ [ex_offer 1000 1800003600000])) =
     Inr ((ex_state ex_config)
            \<lparr>trace := [Delete ''sellOffer_X_7'', Emit ''REMOVE_SELL_OFFER : AU_alice'']\<rparr>) \<and>
   ownerOf (ex_state (ex_config @ [ex_offer 1000 1800003600000])) ''X'' 7 =
     caller (ex_ctx ''AU_alice'' 1800000000000 0) \<and>
   creatorAddress (ex_offer_record 1000 1800003600000) =
     caller (ex_ctx ''AU_alice'' 1800000000000 0) \<and>
   ownerOf (ex_state (ex_config @ [ex_offer 1000 1800003600000])) ''X'' 7 \<noteq>
     caller (ex_ctx ''AU_bob'' 1800000000000 0) \<and>
   (\<exists>e. invoke (removeSellOffer (ex_ctx ''AU_bob'' 1800000000000 0) [AString ''X'', AU256 7])
           (ex_state (ex_config @ [ex_offer 1000 1800003600000])) =
         (Some e, ex_state (ex_config @ [ex_offer 1000 1800003600000]))) \<and>
   (\<exists>e. invoke (removeSellOffer_v1 (ex_ctx ''AU_bob'' 1800000000000 0)
                   [AString ''X'', AU256 7])
           ((ex_state (ex_config @ [ex_offer 1000 1800003600000]))
              \<lparr>ownerOf := (\<lambda>c t. ''AU_bob'')\<rparr>) =
         (Some e, (ex_state (ex_config @ [ex_offer 1000 1800003600000]))
              \<lparr>ownerOf := (\<lambda>c t. ''AU_bob'')\<rparr>))"
proof -
  let ?s = "ex_state (ex_config @ [ex_offer 1000 1800003600000])"
  let ?s1 = "(ex_state ex_config)
            \<lparr>trace := [Delete ''sellOffer_X_7'', Emit ''REMOVE_SELL_OFFER : AU_alice'']\<rparr>"
  let ?s3 = "?s\<lparr>ownerOf := (\<lambda>c t. ''AU_bob'')\<rparr>"
  let ?a = "ex_ctx ''AU_alice'' 1800000000000 0"
  let ?b = "ex_ctx ''AU_bob'' 1800000000000 0"
  have r2: "removeSellOffer ?a [AString ''X'', AU256 7] ?s = Inr ?s1"
    by (simp add: removeSellOffer_def reset_eval eval_defs delete_entry_def generateEvent_def)
  have r1: "removeSellOffer_v1 ?a [AString ''X'', AU256 7] ?s = Inr ?s1"
    by (simp add: removeSellOffer_v1_def eval_defs delete_entry_def generateEvent_def)
  have n2: "ownerOf ?s ''X'' 7 \<noteq> caller ?b"
    by (simp add: ex_defs)
  have n3: "map_of (storage ?s3) (keyGenerator ''X'' 7) =
      Some (SOffer (ex_offer_record 1000 1800003600000)) \<and>
      creatorAddress (ex_offer_record 1000 1800003600000) \<noteq> caller ?b"
    by (simp add: eval_defs)
  from removeSellOffer_checks [of ?a "''X''" 7 "[]" ?s ?s1 ?s1 ?s ?b ?s3
      "ex_offer_record 1000 1800003600000" ?b] r1 r2 n2 n3
  show ?thesis by (simp add: ex_defs)
qed

text \<open>
  The claim as first stated also asks for the creator. Alice lists token 7 and the token
  then moves to Bob outside the marketplace: in v2.2 Bob removes Alice's offer.
\<close>

theorem removeSellOffer_checks_counterexample:
  "map_of (storage ((ex_state (ex_config @ [ex_offer 1000 1800003600000]))
                      \<lparr>ownerOf := (\<lambda>c t. ''AU_bob'')\<rparr>)) (keyGenerator ''X'' 7) =
     Some (SOffer (ex_offer_record 1000 1800003600000)) \<and>
   creatorAddress (ex_offer_record 1000 1800003600000) \<noteq>
     caller (ex_ctx ''AU_bob'' 1800000000000 0) \<and>
   removeSellOffer (ex_ctx ''AU_bob'' 1800000000000 0) [AString ''X'', AU256 7]
     ((ex_state (ex_config @ [ex_offer 1000 1800003600000]))
        \<lparr>ownerOf := (\<lambda>c t. ''AU_bob'')\<rparr>) =
     Inr ((ex_state ex_config)
            \<lparr>ownerOf := (\<lambda>c t. ''AU_bob''),
             trace := [Delete ''sellOffer_X_7'', Emit ''REMOVE_SELL_OFFER : AU_bob'']\<rparr>)"
  by (simp add: removeSellOffer_def reset_eval eval_defs delete_entry_def generateEvent_def)


subsection \<open>The expiry coordinate\<close>

lemma unat_t0: "unat t0 = 16000"
  by (simp add: t0_def)

lemma schedule_period:
  fixes d :: u64
  shows "unat (d div t0) = unat d div 16000"
  by (simp add: unat_t0 unat_div_distrib)

lemma schedule_rest:
  fixes d :: u64
  shows "unat (d - d div t0 * t0) = unat d - unat (d div t0) * 16000"
    and "unat (d - d div t0 * t0) = unat d mod 16000"
proof -
  have le: "d div t0 * t0 \<le> d"
    by (rule word_div_mult_le)
  have "unat (d div t0) * unat t0 \<le> unat d"
    by (simp add: unat_div_distrib)
  then have "unat (d div t0) * unat t0 < 2 ^ LENGTH(64)"
    using unsigned_less [of d] by (meson le_less_trans)
  then have m: "unat (d div t0 * t0) = unat (d div t0) * unat t0"
    by (rule unat_mult_lem [THEN iffD1])
  have "unat (d - d div t0 * t0) = unat d - unat (d div t0 * t0)"
    using le by (rule unat_sub)
  then show a: "unat (d - d div t0 * t0) = unat d - unat (d div t0) * 16000"
    by (simp only: m unat_t0)
  show "unat (d - d div t0 * t0) = unat d mod 16000"
    unfolding a schedule_period by (simp add: minus_div_mult_eq_mod)
qed

lemma schedule_thread:
  fixes d :: u64
  shows "unat (ucast ((d - d div t0 * t0) div (t0 div thread_count)) :: u8) =
           (unat d - unat (d div t0) * 16000) div (16000 div 32)"
    and "unat (ucast ((d - d div t0 * t0) div (t0 div thread_count)) :: u8) \<le> 31"
proof -
  let ?r = "d - d div t0 * t0"
  have q: "t0 div thread_count = (500 :: u64)"
    by (simp add: t0_def thread_count_def)
  have v: "unat (?r div 500) = (unat d mod 16000) div 500"
    by (simp add: unat_div_distrib schedule_rest(2))
  have "(unat d mod 16000) div 500 < 32"
    by simp
  then have small: "unat (?r div 500) < 32"
    using v by simp
  have u: "unat (ucast (?r div 500) :: u8) = unat (?r div 500)"
    using small by (simp add: unsigned_ucast_eq take_bit_nat_eq_self)
  show "unat (ucast (?r div (t0 div thread_count)) :: u8) =
           (unat d - unat (d div t0) * 16000) div (16000 div 32)"
    unfolding q u by (simp add: unat_div_distrib schedule_rest(1))
  show "unat (ucast (?r div (t0 div thread_count)) :: u8) \<le> 31"
    unfolding q using u small by simp
qed

lemma schedule_end:
  fixes d :: u64
  shows "unat (d div t0 + 10) = unat (d div t0) + 10"
proof -
  have "unat (d div t0) \<le> unat d div 16000"
    by (simp add: unat_div_distrib t0_def)
  moreover have "unat d < 2 ^ 64"
    using unsigned_less [of d] by simp
  ultimately have "unat (d div t0) + unat (10 :: u64) < 2 ^ LENGTH(64)"
    by simp
  then have "unat (d div t0 + 10) = unat (d div t0) + unat (10 :: u64)"
    by (rule unat_add_lem [THEN iffD1])
  then show ?thesis
    by simp
qed


lemma spec_coordinateI:
  fixes e g :: u64
  assumes "validityStartPeriod m = (e - g) div t0"
    and "validityStartThread m =
           ucast ((e - g - (e - g) div t0 * t0) div (t0 div thread_count))"
    and "validityEndPeriod m = (e - g) div t0 + 10"
    and "validityEndThread m = 31"
  shows "spec_coordinate e g m"
  unfolding spec_coordinate_def Let_def
  by (simp add: assms schedule_period schedule_thread(1) schedule_end)

lemma sellOffer_Inr:
  assumes "sellOffer ctx (AString c # AU256 t # AU64 p # AU64 x # rest) s = Inr s'"
  shows "now ctx < now ctx + x"
    and "\<exists>m. trace s' = trace s @
           [Write (keyGenerator c t)
              (SOffer \<lparr>collectionAddress = c, tokenId = u256_toString t, price = p,
                       creatorAddress = caller ctx, expirationTime = now ctx + x,
                       createdTime = now ctx\<rparr>),
            Send m,
            Emit (''autonomous remove started for the '' @ c @ ''_'' @ u256_toString t)] \<and>
          target m = callee ctx \<and> functionName m = ''autonomousDeleteOffer'' \<and>
          functionParams m = [AString c, AU256 t] \<and>
          spec_coordinate (now ctx + x) genesisTimestamp m"
  using assms
  by (auto simp: sellOffer_def Let_def host_simps intro!: spec_coordinateI split: if_splits)

lemma sellOffer_v1_Inr:
  assumes "sellOffer_v1 ctx (AString c # AU256 t # AU64 p # AU64 x # rest) s = Inr s'"
  shows "\<exists>m. trace s' = trace s @
           [Write (keyGenerator c t)
              (SOffer \<lparr>collectionAddress = c, tokenId = u256_toString t, price = p,
                       creatorAddress = caller ctx, expirationTime = now ctx + x,
                       createdTime = now ctx\<rparr>),
            Send m] \<and>
          target m = callee ctx \<and> functionName m = ''autonomousDeleteOffer'' \<and>
          functionParams m = [AString c, AU256 t] \<and>
          spec_coordinate (now ctx + x) genesisTimestamp_v1 m"
  using assms
  by (auto simp: sellOffer_v1_def Let_def host_simps intro!: spec_coordinateI split: if_splits)


text \<open>
  C7. A successful \<open>sellOffer\<close> stores the offer with \<open>expirationTime = now + expireIn\<close>
  and sends exactly one deferred message, to the contract itself, for
  \<open>autonomousDeleteOffer\<close> on the same collection and token, whose coordinate is the one
  of the spec: start period \<open>floor((expireAt - genesis) / t0)\<close>, start thread
  \<open>floor(((expireAt - genesis) - period * t0) / (t0 / threadCount))\<close>, end period
  \<open>period + 10\<close>, end thread 31; neither the product \<open>period * t0\<close> nor \<open>period + 10\<close>
  wraps. The same holds in the earlier marketplace with its own genesis constant. The
  difference \<open>expireAt - genesis\<close> is the exact one whenever the expiry is not before
  genesis; in v2.2 \<open>now + expireIn\<close> does not wrap either.
\<close>

theorem sellOffer_schedule:
  "(sellOffer ctx (AString c # AU256 t # AU64 p # AU64 x # rest) s = Inr s' \<longrightarrow>
      now ctx < now ctx + x \<and>
      (\<exists>m. trace s' = trace s @
           [Write (keyGenerator c t)
              (SOffer \<lparr>collectionAddress = c, tokenId = u256_toString t, price = p,
                       creatorAddress = caller ctx, expirationTime = now ctx + x,
                       createdTime = now ctx\<rparr>),
            Send m,
            Emit (''autonomous remove started for the '' @ c @ ''_'' @ u256_toString t)] \<and>
          target m = callee ctx \<and> functionName m = ''autonomousDeleteOffer'' \<and>
          functionParams m = [AString c, AU256 t] \<and>
          spec_coordinate (now ctx + x) genesisTimestamp m)) \<and>
   (sellOffer_v1 ctx (AString c # AU256 t # AU64 p # AU64 x # rest) s = Inr s'' \<longrightarrow>
      (\<exists>m. trace s'' = trace s @
           [Write (keyGenerator c t)
              (SOffer \<lparr>collectionAddress = c, tokenId = u256_toString t, price = p,
                       creatorAddress = caller ctx, expirationTime = now ctx + x,
                       createdTime = now ctx\<rparr>),
            Send m] \<and>
          target m = callee ctx \<and> functionName m = ''autonomousDeleteOffer'' \<and>
          functionParams m = [AString c, AU256 t] \<and>
          spec_coordinate (now ctx + x) genesisTimestamp_v1 m)) \<and>
   (\<forall>g. g \<le> now ctx + x \<longrightarrow> unat (now ctx + x - g) = unat (now ctx + x) - unat g)"
  using sellOffer_Inr [of ctx c t p x rest s s'] sellOffer_v1_Inr [of ctx c t p x rest s s'']
  by (simp add: unat_sub)

text \<open>
  Alice lists token 7 for 3607777 ms: period 5918175 and thread 15 on the grid of v2.2,
  period 5982112 and thread 31 on the grid of the earlier marketplace.
\<close>

theorem sellOffer_schedule_witness:
  "sellOffer (ex_ctx ''AU_alice'' 1800000000000 0)
     [AString ''X'', AU256 7, AU64 1000, AU64 3607777] (ex_state ex_config) =
     Inr ((ex_state (ex_config @ [ex_offer 1000 1800003607777]))
            \<lparr>trace := [Write ''sellOffer_X_7'' (SOffer (ex_offer_record 1000 1800003607777)),
                       Send (ex_message 5918175 15 1000000000 50000000),
                       Emit ''autonomous remove started for the X_7'']\<rparr>) \<and>
   sellOffer_v1 (ex_ctx ''AU_alice'' 1800000000000 0)
     [AString ''X'', AU256 7, AU64 1000, AU64 3607777] (ex_state ex_config) =
     Inr ((ex_state (ex_config @ [ex_offer 1000 1800003607777]))
            \<lparr>trace := [Write ''sellOffer_X_7'' (SOffer (ex_offer_record 1000 1800003607777)),
                       Send (ex_message 5982112 31 500000000 0)]\<rparr>) \<and>
   spec_coordinate 1800003607777 genesisTimestamp
     (ex_message 5918175 15 1000000000 50000000) \<and>
   spec_coordinate 1800003607777 genesisTimestamp_v1 (ex_message 5982112 31 500000000 0) \<and>
   unat (1800003607777 - genesisTimestamp) = 1800003607777 - 1705312800000"
proof -
  let ?ctx = "ex_ctx ''AU_alice'' 1800000000000 0"
  let ?s' = "(ex_state (ex_config @ [ex_offer 1000 1800003607777]))
            \<lparr>trace := [Write ''sellOffer_X_7'' (SOffer (ex_offer_record 1000 1800003607777)),
                       Send (ex_message 5918175 15 1000000000 50000000),
                       Emit ''autonomous remove started for the X_7'']\<rparr>"
  let ?s'' = "(ex_state (ex_config @ [ex_offer 1000 1800003607777]))
            \<lparr>trace := [Write ''sellOffer_X_7'' (SOffer (ex_offer_record 1000 1800003607777)),
                       Send (ex_message 5982112 31 500000000 0)]\<rparr>"
  have r2: "sellOffer ?ctx [AString ''X'', AU256 7, AU64 1000, AU64 3607777]
              (ex_state ex_config) = Inr ?s'"
    by (simp add: sellOffer_def eval_defs Storage_set_def sendMessage_def generateEvent_def
          ex_message_def genesisTimestamp_def t0_def thread_count_def)
  have r1: "sellOffer_v1 ?ctx [AString ''X'', AU256 7, AU64 1000, AU64 3607777]
              (ex_state ex_config) = Inr ?s''"
    by (simp add: sellOffer_v1_def eval_defs Storage_set_def sendMessage_def
          ex_message_def genesisTimestamp_v1_def t0_def thread_count_def)
  have g: "genesisTimestamp \<le> now ?ctx + 3607777"
    by (simp add: genesisTimestamp_def ex_defs)
  from sellOffer_schedule [of ?ctx "''X''" 7 1000 3607777 "[]" "ex_state ex_config" ?s' ?s'']
    r1 r2 g
  show ?thesis
    by (simp add: ex_defs genesisTimestamp_def)
qed


subsection \<open>The loop of the bid reset\<close>

lemma refund_step_simps:
  "storage (refund_step b k bid s) = AList.delete k (storage s)"
  "trace (refund_step b k bid s) =
     trace s @ (if b = [] \<or> bidder bid \<noteq> b then [Transfer (bidder bid) (amount bid)] else [])
       @ [Delete k]"
  "ownerOf (refund_step b k bid s) = ownerOf s"
  "isApprovedForAll (refund_step b k bid s) = isApprovedForAll s"
  by (simp_all add: refund_step_def host_simps)

lemma loop_Cons_Inr:
  "resetBids_loop ctx b (k # ks) s = Inr s' \<Longrightarrow>
     \<exists>bid. map_of (storage s) k = Some (SBid bid) \<and>
           resetBids_loop ctx b ks (refund_step b k bid s) = Inr s'"
  by (auto simp: Storage_get_def refund_step_def Storage_del_Inr
        split: option.splits sum.splits)

lemma loop_Cons_stored:
  "map_of (storage s) k = Some (SBid bid) \<Longrightarrow>
     resetBids_loop ctx b (k # ks) s = resetBids_loop ctx b ks (refund_step b k bid s)"
  by (simp add: Storage_get_def refund_step_def Storage_del_def Storage_has_def host_simps)

lemma loop_world:
  "resetBids_loop ctx b ks s = Inr s' \<Longrightarrow>
     ownerOf s' = ownerOf s \<and> isApprovedForAll s' = isApprovedForAll s"
proof (induction ks arbitrary: s)
  case Nil
  then show ?case by simp
next
  case (Cons k ks)
  from loop_Cons_Inr [OF Cons.prems] obtain bid
    where "resetBids_loop ctx b ks (refund_step b k bid s) = Inr s'" by blast
  from Cons.IH [OF this] show ?case by (simp add: refund_step_simps)
qed

lemma loop_storage:
  "resetBids_loop ctx b ks s = Inr s' \<Longrightarrow>
     map_of (storage s') k = (if k \<in> set ks then None else map_of (storage s) k)"
proof (induction ks arbitrary: s)
  case Nil
  then show ?case by simp
next
  case (Cons k' ks)
  from loop_Cons_Inr [OF Cons.prems] obtain bid
    where "resetBids_loop ctx b ks (refund_step b k' bid s) = Inr s'" by blast
  from Cons.IH [OF this] show ?case by (simp add: refund_step_simps delete_conv')
qed

lemma loop_distinct:
  "resetBids_loop ctx b ks s = Inr s' \<Longrightarrow> distinct (map fst (storage s)) \<Longrightarrow>
     distinct (map fst (storage s'))"
proof (induction ks arbitrary: s)
  case Nil
  then show ?case by simp
next
  case (Cons k' ks)
  from loop_Cons_Inr [OF Cons.prems(1)] obtain bid
    where r: "resetBids_loop ctx b ks (refund_step b k' bid s) = Inr s'" by blast
  have "distinct (map fst (storage (refund_step b k' bid s)))"
    using Cons.prems(2) by (simp add: refund_step_simps distinct_delete)
  from Cons.IH [OF r this] show ?case .
qed

text \<open>What the loop appends to the trace.\<close>

lemma loop_trace:
  "resetBids_loop ctx b ks s = Inr s' \<Longrightarrow>
     \<exists>R. trace s' = trace s @ R \<and>
       (\<forall>a x. Transfer a x \<in> set R \<longrightarrow>
          (\<exists>k\<in>set ks. \<exists>bid. map_of (storage s) k = Some (SBid bid) \<and>
             a = bidder bid \<and> x = amount bid \<and> (b = [] \<or> bidder bid \<noteq> b))) \<and>
       (\<forall>k\<in>set ks. \<forall>bid. map_of (storage s) k = Some (SBid bid) \<and>
          (b = [] \<or> bidder bid \<noteq> b) \<longrightarrow> Transfer (bidder bid) (amount bid) \<in> set R) \<and>
       (\<forall>e\<in>set R. (\<exists>a x. e = Transfer a x) \<or> (\<exists>k\<in>set ks. e = Delete k))"
proof (induction ks arbitrary: s)
  case Nil
  then show ?case by simp
next
  case (Cons k' ks)
  from loop_Cons_Inr [OF Cons.prems] obtain bid
    where st: "map_of (storage s) k' = Some (SBid bid)"
      and r: "resetBids_loop ctx b ks (refund_step b k' bid s) = Inr s'" by blast
  define s1 where "s1 = refund_step b k' bid s"
  define E where "E = (if b = [] \<or> bidder bid \<noteq> b
                        then [Transfer (bidder bid) (amount bid)] else []) @ [Delete k']"
  have s1_trace: "trace s1 = trace s @ E"
    by (simp add: s1_def E_def refund_step_simps)
  have s1_storage: "storage s1 = AList.delete k' (storage s)"
    by (simp add: s1_def refund_step_simps)
  from Cons.IH [OF r [folded s1_def]] obtain R where
    tr: "trace s' = trace s1 @ R"
    and sound: "\<forall>a x. Transfer a x \<in> set R \<longrightarrow>
          (\<exists>k\<in>set ks. \<exists>bid. map_of (storage s1) k = Some (SBid bid) \<and>
             a = bidder bid \<and> x = amount bid \<and> (b = [] \<or> bidder bid \<noteq> b))"
    and compl: "\<forall>k\<in>set ks. \<forall>bid. map_of (storage s1) k = Some (SBid bid) \<and>
          (b = [] \<or> bidder bid \<noteq> b) \<longrightarrow> Transfer (bidder bid) (amount bid) \<in> set R"
    and shape: "\<forall>e\<in>set R. (\<exists>a x. e = Transfer a x) \<or> (\<exists>k\<in>set ks. e = Delete k)"
    by blast
  have old: "map_of (storage s) k = Some v" if "map_of (storage s1) k = Some v" for k v
    using that by (simp add: s1_storage delete_conv' split: if_splits)
  have keep: "map_of (storage s1) k = map_of (storage s) k" if "k \<noteq> k'" for k
    using that by (simp add: s1_storage delete_conv')
  have E_transfer: "a = bidder bid \<and> x = amount bid \<and> (b = [] \<or> bidder bid \<noteq> b)"
    if "Transfer a x \<in> set E" for a x
    using that by (simp add: E_def split: if_splits)
  have E_refund: "Transfer (bidder bid) (amount bid) \<in> set E"
    if "b = [] \<or> bidder bid \<noteq> b"
    using that by (simp add: E_def)
  have E_shape: "(\<exists>a x. e = Transfer a x) \<or> e = Delete k'" if "e \<in> set E" for e
    using that by (auto simp: E_def split: if_splits)
  have t: "trace s' = trace s @ (E @ R)"
    using tr s1_trace by simp
  have c1: "\<forall>a x. Transfer a x \<in> set (E @ R) \<longrightarrow>
          (\<exists>k\<in>set (k' # ks). \<exists>bid. map_of (storage s) k = Some (SBid bid) \<and>
             a = bidder bid \<and> x = amount bid \<and> (b = [] \<or> bidder bid \<noteq> b))"
  proof (intro allI impI)
    fix a x assume "Transfer a x \<in> set (E @ R)"
    then consider "Transfer a x \<in> set E" | "Transfer a x \<in> set R" by auto
    then show "\<exists>k\<in>set (k' # ks). \<exists>bid. map_of (storage s) k = Some (SBid bid) \<and>
             a = bidder bid \<and> x = amount bid \<and> (b = [] \<or> bidder bid \<noteq> b)"
    proof cases
      case 1
      from E_transfer [OF 1] st show ?thesis
        by (intro bexI [of _ k'] exI [of _ bid]) simp_all
    next
      case 2
      with sound obtain k bid' where k: "k \<in> set ks"
        and m: "map_of (storage s1) k = Some (SBid bid')"
        and p: "a = bidder bid' \<and> x = amount bid' \<and> (b = [] \<or> bidder bid' \<noteq> b)" by blast
      from old [OF m] p k show ?thesis
        by (intro bexI [of _ k] exI [of _ bid']) simp_all
    qed
  qed
  have c2: "\<forall>k\<in>set (k' # ks). \<forall>bid. map_of (storage s) k = Some (SBid bid) \<and>
          (b = [] \<or> bidder bid \<noteq> b) \<longrightarrow> Transfer (bidder bid) (amount bid) \<in> set (E @ R)"
  proof (intro ballI allI impI)
    fix k bid'
    assume k: "k \<in> set (k' # ks)"
      and h: "map_of (storage s) k = Some (SBid bid') \<and> (b = [] \<or> bidder bid' \<noteq> b)"
    show "Transfer (bidder bid') (amount bid') \<in> set (E @ R)"
    proof (cases "k = k'")
      case True
      with st h have "bid' = bid" by simp
      with h E_refund show ?thesis by simp
    next
      case False
      with k have "k \<in> set ks" by simp
      moreover have "map_of (storage s1) k = Some (SBid bid')"
        using keep [OF False] h by simp
      ultimately have "Transfer (bidder bid') (amount bid') \<in> set R"
        using compl h by blast
      then show ?thesis by simp
    qed
  qed
  have c3: "\<forall>e\<in>set (E @ R). (\<exists>a x. e = Transfer a x) \<or> (\<exists>k\<in>set (k' # ks). e = Delete k)"
  proof
    fix e assume "e \<in> set (E @ R)"
    then consider "e \<in> set E" | "e \<in> set R" by auto
    then show "(\<exists>a x. e = Transfer a x) \<or> (\<exists>k\<in>set (k' # ks). e = Delete k)"
    proof cases
      case 1
      from E_shape [OF 1] show ?thesis by auto
    next
      case 2
      with shape have "(\<exists>a x. e = Transfer a x) \<or> (\<exists>k\<in>set ks. e = Delete k)" by blast
      then show ?thesis by auto
    qed
  qed
  show ?case by (intro exI [of _ "E @ R"] conjI t c1 c2 c3)
qed

lemma getKeys_iff:
  "k \<in> set (Storage_getKeys s p) \<longleftrightarrow> prefix p k \<and> map_of (storage s) k \<noteq> None"
  by (auto simp: Storage_getKeys_def map_of_eq_None_iff)

lemma getKeys_distinct:
  "distinct (map fst (storage s)) \<Longrightarrow> distinct (Storage_getKeys s p)"
  by (simp add: Storage_getKeys_def)

text \<open>
  The scan is by prefix of the key, and the prefix of token 7 is also a prefix of the bid
  keys of the tokens 70 to 79, 700 to 799 and so on: a reset of token 7 refunds and
  deletes Bob's bid on token 70 as well.
\<close>

lemma resetBids_reaches_longer_ids:
  "map_sum id (\<lambda>s'. (storage s', trace s'))
     (resetBids (ex_ctx ''AU_alice'' 1800000000000 0) ''X'' 7 []
        (ex_state (ex_config @
           [(''bid_X_70_AU_bob'',
             SBid \<lparr>bidder = ''AU_bob'', amount = 100, timestamp = 1800000000000\<rparr>)]))) =
   Inr (ex_config, [Transfer ''AU_bob'' 100, Delete ''bid_X_70_AU_bob''])"
  by (simp add: reset_eval eval_defs u256_toString_def toString.simps)


subsection \<open>Accepting a bid\<close>

lemma bytesToU64_Some [simp]: "bytesToU64 v = Some x \<longleftrightarrow> v = SU64 x"
  by (cases v) auto

lemma bytesToString_Some [simp]: "bytesToString v = Some x \<longleftrightarrow> v = SString x"
  by (cases v) auto

lemma call_transferFrom_Inr:
  assumes "call_transferFrom operator c from to t coins s = Inr s1"
  shows "storage s1 = storage s"
    and "trace s1 = trace s @ [Call c ''transferFrom'' [AString from, AString to, AU256 t] coins]"
    and "ownerOf s c t = from"
    and "operator = from \<or> isApprovedForAll s c from operator"
    and "ownerOf s1 = (ownerOf s)(c := (ownerOf s c)(t := to))"
    and "isApprovedForAll s1 = isApprovedForAll s"
  using assms by (auto simp: call_transferFrom_def split: if_splits)

lemma calculateMarketplaceFee_Inr:
  "calculateMarketplaceFee s amt = Inr fee \<longleftrightarrow>
     (\<exists>F. map_of (storage s) MARKETPLACE_FEE_KEY = Some (SU64 F) \<and> fee = amt div 100 * F)"
  by (auto simp: calculateMarketplaceFee_def Storage_get_def split: option.splits)

lemma marketplaceOwner_Inr:
  "marketplaceOwner s = Inr mo \<longleftrightarrow>
     map_of (storage s) MARKETPLACE_OWNER_KEY = Some (SString mo)"
  by (auto simp: marketplaceOwner_def Storage_get_def split: option.splits)

lemma acceptBid_Inr:
  assumes "acceptBid ctx (AString c # AU256 t # AString b # rest) s = Inr s'"
  shows "\<exists>bid fee ev s1 s5.
     map_of (storage s) (bidKeyGenerator c t b) = Some (SBid bid) \<and>
     ownerOf s c t = caller ctx \<and>
     call_transferFrom (callee ctx) c (caller ctx) b t 10000000 s = Inr s1 \<and>
     calculateMarketplaceFee s1 (amount bid) = Inr fee \<and>
     resetBids ctx c t b
       (delete_entry (bidKeyGenerator c t b)
          (generateEvent ev (transferCoins (caller ctx) (amount bid - fee) s1))) = Inr s5 \<and>
     s' = delete_entry (keyGenerator c t) s5"
  using assms
  unfolding acceptBid_def Let_def getNFTOwner_def Storage_get_def
  by (simp add: Storage_del_Inr split: if_splits option.splits sum.splits) blast

lemma bid_prefix:
  "prefix (BID_PREFIX @ c @ ''_'' @ u256_toString t) (bidKeyGenerator c t b)"
  by (simp add: bidKeyGenerator_def)

lemma bid_key_inj: "bidKeyGenerator c t b = bidKeyGenerator c t b' \<longleftrightarrow> b = b'"
  by (simp add: bidKeyGenerator_def)

text \<open>The bid reset, from the state it starts in.\<close>

lemma resetBids_Inr:
  assumes "resetBids ctx c t b s = Inr s'"
  shows "\<forall>b'. map_of (storage s') (bidKeyGenerator c t b') = None"
    and "\<forall>k. map_of (storage s) k = None \<longrightarrow> map_of (storage s') k = None"
    and "\<exists>R. trace s' = trace s @ R \<and>
       (\<forall>a x. Transfer a x \<in> set R \<longrightarrow>
          (\<exists>k bid. map_of (storage s) k = Some (SBid bid) \<and>
             a = bidder bid \<and> x = amount bid \<and> (b = [] \<or> bidder bid \<noteq> b))) \<and>
       (\<forall>b' bid. map_of (storage s) (bidKeyGenerator c t b') = Some (SBid bid) \<and>
          (b = [] \<or> bidder bid \<noteq> b) \<longrightarrow> Transfer (bidder bid) (amount bid) \<in> set R)"
proof -
  define P where "P = BID_PREFIX @ c @ ''_'' @ u256_toString t"
  have loop: "resetBids_loop ctx b (Storage_getKeys s P) s = Inr s'"
    using assms by (simp add: resetBids_def P_def)
  have st: "map_of (storage s') k =
      (if k \<in> set (Storage_getKeys s P) then None else map_of (storage s) k)" for k
    by (rule loop_storage [OF loop])
  show "\<forall>b'. map_of (storage s') (bidKeyGenerator c t b') = None"
  proof
    fix b'
    have "prefix P (bidKeyGenerator c t b')"
      unfolding P_def by (rule bid_prefix)
    then show "map_of (storage s') (bidKeyGenerator c t b') = None"
      by (simp add: st getKeys_iff)
  qed
  show "\<forall>k. map_of (storage s) k = None \<longrightarrow> map_of (storage s') k = None"
    by (simp add: st)
  from loop_trace [OF loop] obtain R where
    tr: "trace s' = trace s @ R"
    and sound: "\<forall>a x. Transfer a x \<in> set R \<longrightarrow>
          (\<exists>k\<in>set (Storage_getKeys s P). \<exists>bid. map_of (storage s) k = Some (SBid bid) \<and>
             a = bidder bid \<and> x = amount bid \<and> (b = [] \<or> bidder bid \<noteq> b))"
    and compl: "\<forall>k\<in>set (Storage_getKeys s P). \<forall>bid. map_of (storage s) k = Some (SBid bid) \<and>
          (b = [] \<or> bidder bid \<noteq> b) \<longrightarrow> Transfer (bidder bid) (amount bid) \<in> set R"
    by blast
  have c1: "\<forall>a x. Transfer a x \<in> set R \<longrightarrow>
          (\<exists>k bid. map_of (storage s) k = Some (SBid bid) \<and>
             a = bidder bid \<and> x = amount bid \<and> (b = [] \<or> bidder bid \<noteq> b))"
    using sound by blast
  have c2: "\<forall>b' bid. map_of (storage s) (bidKeyGenerator c t b') = Some (SBid bid) \<and>
          (b = [] \<or> bidder bid \<noteq> b) \<longrightarrow> Transfer (bidder bid) (amount bid) \<in> set R"
  proof (intro allI impI)
    fix b' bid
    assume h: "map_of (storage s) (bidKeyGenerator c t b') = Some (SBid bid) \<and>
          (b = [] \<or> bidder bid \<noteq> b)"
    have "prefix P (bidKeyGenerator c t b')"
      unfolding P_def by (rule bid_prefix)
    with h have "bidKeyGenerator c t b' \<in> set (Storage_getKeys s P)"
      by (simp add: getKeys_iff)
    with compl h show "Transfer (bidder bid) (amount bid) \<in> set R" by blast
  qed
  show "\<exists>R. trace s' = trace s @ R \<and>
       (\<forall>a x. Transfer a x \<in> set R \<longrightarrow>
          (\<exists>k bid. map_of (storage s) k = Some (SBid bid) \<and>
             a = bidder bid \<and> x = amount bid \<and> (b = [] \<or> bidder bid \<noteq> b))) \<and>
       (\<forall>b' bid. map_of (storage s) (bidKeyGenerator c t b') = Some (SBid bid) \<and>
          (b = [] \<or> bidder bid \<noteq> b) \<longrightarrow> Transfer (bidder bid) (amount bid) \<in> set R)"
    by (intro exI [of _ R] conjI tr c1 c2)
qed

text \<open>
  C3. After a successful \<open>acceptBid\<close> on a collection, token and bidder, no bid record is
  left for that collection and token. The trace of the call is: the transfer of the
  token, the payment of the seller, the event, the deletion of the accepted bid, the
  refunds \<open>R\<close> of the reset, and the deletion of the offer key. Every refund in \<open>R\<close> is the
  amount of a record stored under another key than the accepted one and goes to the
  bidder named in that record, so none of them goes to the accepted bidder; and every
  other bidder's stored bid on that token is refunded in full.
\<close>

theorem acceptBid_exclusive:
  assumes "acceptBid ctx (AString c # AU256 t # AString b # rest) s = Inr s'"
  shows "(\<forall>b'. map_of (storage s') (bidKeyGenerator c t b') = None) \<and>
     (\<exists>bid fee ev R.
        map_of (storage s) (bidKeyGenerator c t b) = Some (SBid bid) \<and>
        trace s' = trace s @
          [Call c ''transferFrom'' [AString (caller ctx), AString b, AU256 t] 10000000,
           Transfer (caller ctx) (amount bid - fee), Emit ev,
           Delete (bidKeyGenerator c t b)] @ R @ [Delete (keyGenerator c t)] \<and>
        (\<forall>a x. Transfer a x \<in> set R \<longrightarrow>
           (\<exists>k bid'. k \<noteq> bidKeyGenerator c t b \<and>
              map_of (storage s) k = Some (SBid bid') \<and>
              a = bidder bid' \<and> x = amount bid' \<and> (b = [] \<or> bidder bid' \<noteq> b))) \<and>
        (b \<noteq> [] \<longrightarrow> (\<forall>x. Transfer b x \<notin> set R)) \<and>
        (\<forall>b' bid'. b' \<noteq> b \<and>
           map_of (storage s) (bidKeyGenerator c t b') = Some (SBid bid') \<and>
           bidder bid' = b' \<longrightarrow> Transfer b' (amount bid') \<in> set R))"
proof -
  from acceptBid_Inr [OF assms] obtain bid fee ev s1 s5 where
    stored: "map_of (storage s) (bidKeyGenerator c t b) = Some (SBid bid)"
    and call: "call_transferFrom (callee ctx) c (caller ctx) b t 10000000 s = Inr s1"
    and reset: "resetBids ctx c t b
       (delete_entry (bidKeyGenerator c t b)
          (generateEvent ev (transferCoins (caller ctx) (amount bid - fee) s1))) = Inr s5"
    and s': "s' = delete_entry (keyGenerator c t) s5"
    by blast
  define s4 where "s4 = delete_entry (bidKeyGenerator c t b)
          (generateEvent ev (transferCoins (caller ctx) (amount bid - fee) s1))"
  have st4: "storage s4 = AList.delete (bidKeyGenerator c t b) (storage s)"
    by (simp add: s4_def host_simps call_transferFrom_Inr(1) [OF call])
  have tr4: "trace s4 = trace s @
          [Call c ''transferFrom'' [AString (caller ctx), AString b, AU256 t] 10000000,
           Transfer (caller ctx) (amount bid - fee), Emit ev,
           Delete (bidKeyGenerator c t b)]"
    by (simp add: s4_def host_simps call_transferFrom_Inr(2) [OF call])
  have m4: "map_of (storage s4) k =
      (if k = bidKeyGenerator c t b then None else map_of (storage s) k)" for k
    by (simp add: st4 delete_conv')
  note r = resetBids_Inr [OF reset [folded s4_def]]
  have none: "\<forall>b'. map_of (storage s') (bidKeyGenerator c t b') = None"
    using r(1) by (simp add: s' host_simps delete_conv')
  from r(3) obtain R where
    tr5: "trace s5 = trace s4 @ R"
    and sound: "\<forall>a x. Transfer a x \<in> set R \<longrightarrow>
          (\<exists>k bid. map_of (storage s4) k = Some (SBid bid) \<and>
             a = bidder bid \<and> x = amount bid \<and> (b = [] \<or> bidder bid \<noteq> b))"
    and compl: "\<forall>b' bid. map_of (storage s4) (bidKeyGenerator c t b') = Some (SBid bid) \<and>
          (b = [] \<or> bidder bid \<noteq> b) \<longrightarrow> Transfer (bidder bid) (amount bid) \<in> set R"
    by blast
  have tr: "trace s' = trace s @
          [Call c ''transferFrom'' [AString (caller ctx), AString b, AU256 t] 10000000,
           Transfer (caller ctx) (amount bid - fee), Emit ev,
           Delete (bidKeyGenerator c t b)] @ R @ [Delete (keyGenerator c t)]"
    by (simp add: s' host_simps tr5 tr4)
  have c1: "\<forall>a x. Transfer a x \<in> set R \<longrightarrow>
           (\<exists>k bid'. k \<noteq> bidKeyGenerator c t b \<and>
              map_of (storage s) k = Some (SBid bid') \<and>
              a = bidder bid' \<and> x = amount bid' \<and> (b = [] \<or> bidder bid' \<noteq> b))"
  proof (intro allI impI)
    fix a x assume "Transfer a x \<in> set R"
    with sound obtain k bid' where
      m: "map_of (storage s4) k = Some (SBid bid')"
      and p: "a = bidder bid' \<and> x = amount bid' \<and> (b = [] \<or> bidder bid' \<noteq> b)" by blast
    from m have "k \<noteq> bidKeyGenerator c t b \<and> map_of (storage s) k = Some (SBid bid')"
      by (simp add: m4 split: if_splits)
    with p show "\<exists>k bid'. k \<noteq> bidKeyGenerator c t b \<and>
              map_of (storage s) k = Some (SBid bid') \<and>
              a = bidder bid' \<and> x = amount bid' \<and> (b = [] \<or> bidder bid' \<noteq> b)" by blast
  qed
  have c2: "b \<noteq> [] \<longrightarrow> (\<forall>x. Transfer b x \<notin> set R)"
    using c1 by blast
  have c3: "\<forall>b' bid'. b' \<noteq> b \<and>
           map_of (storage s) (bidKeyGenerator c t b') = Some (SBid bid') \<and>
           bidder bid' = b' \<longrightarrow> Transfer b' (amount bid') \<in> set R"
  proof (intro allI impI)
    fix b' bid'
    assume h: "b' \<noteq> b \<and>
           map_of (storage s) (bidKeyGenerator c t b') = Some (SBid bid') \<and> bidder bid' = b'"
    then have "map_of (storage s4) (bidKeyGenerator c t b') = Some (SBid bid')"
      by (simp add: m4 bid_key_inj)
    moreover have "b = [] \<or> bidder bid' \<noteq> b" using h by simp
    ultimately have "Transfer (bidder bid') (amount bid') \<in> set R"
      using compl by blast
    with h show "Transfer b' (amount bid') \<in> set R" by simp
  qed
  show ?thesis
    by (intro conjI none exI [of _ bid] exI [of _ fee] exI [of _ ev] exI [of _ R]
          stored tr c1 c2 c3)
qed


lemmas settle_eval = call_transferFrom_def calculateMarketplaceFee_def marketplaceOwner_def
  MARKETPLACE_FEE_KEY_def MARKETPLACE_OWNER_KEY_def u64_toString_def u256_toString_def
  toString.simps resetBids_def Storage_getKeys_def BID_PREFIX_def

text \<open>
  Bob, Carol and Dave have bids on token 7; Alice accepts Carol's. Bob and Dave get their
  100 and 120 back, Carol gets nothing back, and no record of the token is left.
\<close>

theorem acceptBid_exclusive_witness:
  "\<exists>s'. acceptBid (ex_ctx ''AU_alice'' 1800000000000 0)
          [AString ''X'', AU256 7, AString ''AU_carol'']
          (ex_state (ex_config @ [ex_offer 1000 1800003600000, ex_bid ''AU_bob'' 100,
                                  ex_bid ''AU_carol'' 150, ex_bid ''AU_dave'' 120])) = Inr s' \<and>
     storage s' = ex_config \<and>
     trace s' =
       [Call ''X'' ''transferFrom'' [AString ''AU_alice'', AString ''AU_carol'', AU256 7] 10000000,
        Transfer ''AU_alice'' 145,
        Emit ''AU_alice accepted a bid from AU_carol on X token 7 for amount 150'',
        Delete ''bid_X_7_AU_carol'',
        Transfer ''AU_bob'' 100, Delete ''bid_X_7_AU_bob'',
        Transfer ''AU_dave'' 120, Delete ''bid_X_7_AU_dave'',
        Delete ''sellOffer_X_7''] \<and>
     (\<forall>b'. map_of (storage s') (bidKeyGenerator ''X'' 7 b') = None)"
proof -
  let ?ctx = "ex_ctx ''AU_alice'' 1800000000000 0"
  let ?s = "ex_state (ex_config @ [ex_offer 1000 1800003600000, ex_bid ''AU_bob'' 100,
                                  ex_bid ''AU_carol'' 150, ex_bid ''AU_dave'' 120])"
  have "map_sum id (\<lambda>s'. (storage s', trace s'))
          (acceptBid ?ctx [AString ''X'', AU256 7, AString ''AU_carol''] ?s) =
        Inr (ex_config,
          [Call ''X'' ''transferFrom'' [AString ''AU_alice'', AString ''AU_carol'', AU256 7]
             10000000,
           Transfer ''AU_alice'' 145,
           Emit ''AU_alice accepted a bid from AU_carol on X token 7 for amount 150'',
           Delete ''bid_X_7_AU_carol'',
           Transfer ''AU_bob'' 100, Delete ''bid_X_7_AU_bob'',
           Transfer ''AU_dave'' 120, Delete ''bid_X_7_AU_dave'',
           Delete ''sellOffer_X_7''])"
    by (simp add: acceptBid_def eval_defs settle_eval)
  then obtain s' where
    r: "acceptBid ?ctx [AString ''X'', AU256 7, AString ''AU_carol''] ?s = Inr s'"
    and st: "storage s' = ex_config"
    and tr: "trace s' =
       [Call ''X'' ''transferFrom'' [AString ''AU_alice'', AString ''AU_carol'', AU256 7] 10000000,
        Transfer ''AU_alice'' 145,
        Emit ''AU_alice accepted a bid from AU_carol on X token 7 for amount 150'',
        Delete ''bid_X_7_AU_carol'',
        Transfer ''AU_bob'' 100, Delete ''bid_X_7_AU_bob'',
        Transfer ''AU_dave'' 120, Delete ''bid_X_7_AU_dave'',
        Delete ''sellOffer_X_7'']"
    by (cases "acceptBid ?ctx [AString ''X'', AU256 7, AString ''AU_carol''] ?s") auto
  from acceptBid_exclusive [OF r]
  have "\<forall>b'. map_of (storage s') (bidKeyGenerator ''X'' 7 b') = None" by blast
  with r st tr show ?thesis by blast
qed


subsection \<open>The fee\<close>

lemma buyOffer_Inr:
  assumes "buyOffer ctx (AString c # AU256 t # rest) s = Inr s'"
  shows "\<exists>offer fee mo ev s1 s5.
     map_of (storage s) (keyGenerator c t) = Some (SOffer offer) \<and>
     hasCollection s c \<and> now ctx \<le> expirationTime offer \<and>
     price offer \<le> transferredCoins ctx \<and> isAddressEoa ctx (caller ctx) \<and>
     call_transferFrom (callee ctx) c (ownerOf s c t) (caller ctx) t 10000000 s = Inr s1 \<and>
     calculateMarketplaceFee s1 (price offer) = Inr fee \<and>
     marketplaceOwner s1 = Inr mo \<and>
     resetBids ctx c t []
       (generateEvent ev
          (transferCoins (ownerOf s c t) (price offer - fee)
             (transferCoins mo fee s1))) = Inr s5 \<and>
     s' = delete_entry (keyGenerator c t) s5"
  using assms
  unfolding buyOffer_def Let_def getNFTOwner_def Storage_get_def
  by (simp add: Storage_del_Inr split: if_splits option.splits sum.splits) blast

lemma fee_split:
  fixes P F :: u64
  shows "(P - P div 100 * F) + P div 100 * F = P"
    and "unat F \<le> 100 \<Longrightarrow> unat (P div 100 * F) = unat P div 100 * unat F"
    and "unat F \<le> 100 \<Longrightarrow> unat (P - P div 100 * F) + unat (P div 100 * F) = unat P"
proof -
  show "(P - P div 100 * F) + P div 100 * F = P" by simp
  assume F: "unat F \<le> 100"
  have q: "unat (P div 100) = unat P div 100"
    by (simp add: unat_div_distrib)
  have "unat P div 100 * unat F \<le> unat P div 100 * 100"
    using F by (rule mult_le_mono2)
  also have "\<dots> \<le> unat P" by simp
  finally have le: "unat (P div 100) * unat F \<le> unat P"
    by (simp only: q)
  then have "unat (P div 100) * unat F < 2 ^ LENGTH(64)"
    using unsigned_less [of P] by (meson le_less_trans)
  then have m: "unat (P div 100 * F) = unat (P div 100) * unat F"
    by (rule unat_mult_lem [THEN iffD1])
  then show m': "unat (P div 100 * F) = unat P div 100 * unat F"
    by (simp only: q)
  have "P div 100 * F \<le> P"
    using le m by (simp add: word_le_nat_alt)
  then have "unat (P - P div 100 * F) = unat P - unat (P div 100 * F)"
    by (rule unat_sub)
  then show "unat (P - P div 100 * F) + unat (P div 100 * F) = unat P"
    using le m by simp
qed

text \<open>
  C1, as amended. A successful \<open>buyOffer\<close> at the stored price \<open>P\<close> with the stored fee
  rate \<open>F\<close> forwards the fee \<open>(P div 100) * F\<close> to the marketplace owner and
  \<open>P - fee\<close> to the seller; a successful \<open>acceptBid\<close> forwards \<open>P - fee\<close> of the bid
  amount \<open>P\<close> to the seller with the same fee, which stays in the contract. In 64-bit
  arithmetic the seller's proceeds plus the fee are \<open>P\<close>; for a rate of at most 100
  nothing wraps, the fee is \<open>floor(P / 100) * F\<close> and the two amounts add up to \<open>P\<close>
  as numbers.
\<close>

theorem settlement_fee:
  "(buyOffer ctx (AString c # AU256 t # rest) s = Inr s' \<longrightarrow>
      (\<exists>offer F mo ev post.
         map_of (storage s) (keyGenerator c t) = Some (SOffer offer) \<and>
         map_of (storage s) MARKETPLACE_FEE_KEY = Some (SU64 F) \<and>
         map_of (storage s) MARKETPLACE_OWNER_KEY = Some (SString mo) \<and>
         trace s' = trace s @
           [Call c ''transferFrom'' [AString (ownerOf s c t), AString (caller ctx), AU256 t]
              10000000,
            Transfer mo (price offer div 100 * F),
            Transfer (ownerOf s c t) (price offer - price offer div 100 * F),
            Emit ev] @ post)) \<and>
   (acceptBid ctx2 (AString c2 # AU256 t2 # AString b # rest2) s2 = Inr s2' \<longrightarrow>
      (\<exists>bid F ev post.
         map_of (storage s2) (bidKeyGenerator c2 t2 b) = Some (SBid bid) \<and>
         map_of (storage s2) MARKETPLACE_FEE_KEY = Some (SU64 F) \<and>
         trace s2' = trace s2 @
           [Call c2 ''transferFrom'' [AString (caller ctx2), AString b, AU256 t2] 10000000,
            Transfer (caller ctx2) (amount bid - amount bid div 100 * F),
            Emit ev] @ post)) \<and>
   (\<forall>P F :: u64.
      (P - P div 100 * F) + P div 100 * F = P \<and>
      (unat F \<le> 100 \<longrightarrow>
         unat (P div 100 * F) = unat P div 100 * unat F \<and>
         unat (P - P div 100 * F) + unat (P div 100 * F) = unat P))"
proof (intro conjI impI allI)
  assume a: "buyOffer ctx (AString c # AU256 t # rest) s = Inr s'"
  from buyOffer_Inr [OF a] obtain offer fee mo ev s1 s5 where
    stored: "map_of (storage s) (keyGenerator c t) = Some (SOffer offer)"
    and call: "call_transferFrom (callee ctx) c (ownerOf s c t) (caller ctx) t 10000000 s = Inr s1"
    and fee: "calculateMarketplaceFee s1 (price offer) = Inr fee"
    and mo: "marketplaceOwner s1 = Inr mo"
    and reset: "resetBids ctx c t []
       (generateEvent ev
          (transferCoins (ownerOf s c t) (price offer - fee)
             (transferCoins mo fee s1))) = Inr s5"
    and s': "s' = delete_entry (keyGenerator c t) s5"
    by blast
  note st1 = call_transferFrom_Inr(1) [OF call]
  from fee obtain F where F: "map_of (storage s) MARKETPLACE_FEE_KEY = Some (SU64 F)"
    and feeF: "fee = price offer div 100 * F"
    by (auto simp: calculateMarketplaceFee_Inr st1)
  have mo': "map_of (storage s) MARKETPLACE_OWNER_KEY = Some (SString mo)"
    using mo by (simp add: marketplaceOwner_Inr st1)
  from resetBids_Inr(3) [OF reset] obtain R where
    "trace s5 = trace (generateEvent ev
          (transferCoins (ownerOf s c t) (price offer - fee)
             (transferCoins mo fee s1))) @ R" by blast
  then have "trace s' = trace s @
           [Call c ''transferFrom'' [AString (ownerOf s c t), AString (caller ctx), AU256 t]
              10000000,
            Transfer mo (price offer div 100 * F),
            Transfer (ownerOf s c t) (price offer - price offer div 100 * F),
            Emit ev] @ (R @ [Delete (keyGenerator c t)])"
    by (simp add: s' host_simps call_transferFrom_Inr(2) [OF call] feeF)
  with stored F mo' show "\<exists>offer F mo ev post.
         map_of (storage s) (keyGenerator c t) = Some (SOffer offer) \<and>
         map_of (storage s) MARKETPLACE_FEE_KEY = Some (SU64 F) \<and>
         map_of (storage s) MARKETPLACE_OWNER_KEY = Some (SString mo) \<and>
         trace s' = trace s @
           [Call c ''transferFrom'' [AString (ownerOf s c t), AString (caller ctx), AU256 t]
              10000000,
            Transfer mo (price offer div 100 * F),
            Transfer (ownerOf s c t) (price offer - price offer div 100 * F),
            Emit ev] @ post" by blast
next
  assume a: "acceptBid ctx2 (AString c2 # AU256 t2 # AString b # rest2) s2 = Inr s2'"
  from acceptBid_Inr [OF a] obtain bid fee ev s1 s5 where
    stored: "map_of (storage s2) (bidKeyGenerator c2 t2 b) = Some (SBid bid)"
    and call: "call_transferFrom (callee ctx2) c2 (caller ctx2) b t2 10000000 s2 = Inr s1"
    and fee: "calculateMarketplaceFee s1 (amount bid) = Inr fee"
    and reset: "resetBids ctx2 c2 t2 b
       (delete_entry (bidKeyGenerator c2 t2 b)
          (generateEvent ev (transferCoins (caller ctx2) (amount bid - fee) s1))) = Inr s5"
    and s': "s2' = delete_entry (keyGenerator c2 t2) s5"
    by blast
  note st1 = call_transferFrom_Inr(1) [OF call]
  from fee obtain F where F: "map_of (storage s2) MARKETPLACE_FEE_KEY = Some (SU64 F)"
    and feeF: "fee = amount bid div 100 * F"
    by (auto simp: calculateMarketplaceFee_Inr st1)
  from resetBids_Inr(3) [OF reset] obtain R where
    "trace s5 = trace (delete_entry (bidKeyGenerator c2 t2 b)
          (generateEvent ev (transferCoins (caller ctx2) (amount bid - fee) s1))) @ R" by blast
  then have "trace s2' = trace s2 @
           [Call c2 ''transferFrom'' [AString (caller ctx2), AString b, AU256 t2] 10000000,
            Transfer (caller ctx2) (amount bid - amount bid div 100 * F),
            Emit ev] @ (Delete (bidKeyGenerator c2 t2 b) # R @ [Delete (keyGenerator c2 t2)])"
    by (simp add: s' host_simps call_transferFrom_Inr(2) [OF call] feeF)
  with stored F show "\<exists>bid F ev post.
         map_of (storage s2) (bidKeyGenerator c2 t2 b) = Some (SBid bid) \<and>
         map_of (storage s2) MARKETPLACE_FEE_KEY = Some (SU64 F) \<and>
         trace s2' = trace s2 @
           [Call c2 ''transferFrom'' [AString (caller ctx2), AString b, AU256 t2] 10000000,
            Transfer (caller ctx2) (amount bid - amount bid div 100 * F),
            Emit ev] @ post" by blast
next
  fix P F :: u64
  show "(P - P div 100 * F) + P div 100 * F = P" by (rule fee_split(1))
  assume "unat F \<le> 100"
  then show "unat (P div 100 * F) = unat P div 100 * unat F"
    and "unat (P - P div 100 * F) + unat (P div 100 * F) = unat P"
    by (rule fee_split(2), rule fee_split(3))
qed

text \<open>
  The claim as first stated has the fee \<open>floor(P * F / 100)\<close>. At the price 150 and the
  rate 5 that is 7; the marketplace owner receives 5 and the seller 145.
\<close>

theorem settlement_fee_counterexample:
  "map_sum id trace
     (buyOffer (ex_ctx ''AU_bob'' 1800000000000 150) [AString ''X'', AU256 7]
        (ex_state (ex_config @ [ex_offer 150 1800003600000]))) =
   Inr [Call ''X'' ''transferFrom'' [AString ''AU_alice'', AString ''AU_bob'', AU256 7] 10000000,
        Transfer ''AU_admin'' 5,
        Transfer ''AU_alice'' 145,
        Emit ''AU_bob bought this 7 NFT at this 150 price'',
        Delete ''sellOffer_X_7''] \<and>
   (150 * 5) div 100 = (7 :: nat)"
  by (simp add: buyOffer_def eval_defs settle_eval)

text \<open>
  Bob buys token 7 at 1000: 50 to the marketplace owner, 950 to Alice. Alice accepts
  Carol's bid of 250: 240 to Alice.
\<close>

theorem settlement_fee_witness:
  "\<exists>s' s2'.
     buyOffer (ex_ctx ''AU_bob'' 1800000000000 1000) [AString ''X'', AU256 7]
       (ex_state (ex_config @ [ex_offer 1000 1800003600000])) = Inr s' \<and>
     acceptBid (ex_ctx ''AU_alice'' 1800000000000 0)
       [AString ''X'', AU256 7, AString ''AU_carol'']
       (ex_state (ex_config @ [ex_offer 1000 1800003600000, ex_bid ''AU_carol'' 250])) = Inr s2' \<and>
     trace s' =
       [Call ''X'' ''transferFrom'' [AString ''AU_alice'', AString ''AU_bob'', AU256 7] 10000000,
        Transfer ''AU_admin'' 50,
        Transfer ''AU_alice'' 950,
        Emit ''AU_bob bought this 7 NFT at this 1000 price'',
        Delete ''sellOffer_X_7''] \<and>
     trace s2' =
       [Call ''X'' ''transferFrom'' [AString ''AU_alice'', AString ''AU_carol'', AU256 7] 10000000,
        Transfer ''AU_alice'' 240,
        Emit ''AU_alice accepted a bid from AU_carol on X token 7 for amount 250'',
        Delete ''bid_X_7_AU_carol'',
        Delete ''sellOffer_X_7''] \<and>
     unat (5 :: u64) \<le> 100 \<and>
     unat ((1000 :: u64) div 100 * 5) = unat (1000 :: u64) div 100 * unat (5 :: u64) \<and>
     unat ((1000 :: u64) - 1000 div 100 * 5) + unat ((1000 :: u64) div 100 * 5) =
       unat (1000 :: u64)"
proof -
  let ?b = "ex_ctx ''AU_bob'' 1800000000000 1000"
  let ?a = "ex_ctx ''AU_alice'' 1800000000000 0"
  let ?s = "ex_state (ex_config @ [ex_offer 1000 1800003600000])"
  let ?s2 = "ex_state (ex_config @ [ex_offer 1000 1800003600000, ex_bid ''AU_carol'' 250])"
  let ?t = "[Call ''X'' ''transferFrom'' [AString ''AU_alice'', AString ''AU_bob'', AU256 7]
               10000000,
        Transfer ''AU_admin'' 50,
        Transfer ''AU_alice'' 950,
        Emit ''AU_bob bought this 7 NFT at this 1000 price'',
        Delete ''sellOffer_X_7'']"
  let ?t2 = "[Call ''X'' ''transferFrom'' [AString ''AU_alice'', AString ''AU_carol'', AU256 7]
                10000000,
        Transfer ''AU_alice'' 240,
        Emit ''AU_alice accepted a bid from AU_carol on X token 7 for amount 250'',
        Delete ''bid_X_7_AU_carol'',
        Delete ''sellOffer_X_7'']"
  have "map_sum id trace (buyOffer ?b [AString ''X'', AU256 7] ?s) = Inr ?t"
    by (simp add: buyOffer_def eval_defs settle_eval)
  then obtain s' where r: "buyOffer ?b [AString ''X'', AU256 7] ?s = Inr s'"
    and tr: "trace s' = ?t"
    by (cases "buyOffer ?b [AString ''X'', AU256 7] ?s") auto
  have "map_sum id trace
          (acceptBid ?a [AString ''X'', AU256 7, AString ''AU_carol''] ?s2) = Inr ?t2"
    by (simp add: acceptBid_def eval_defs settle_eval)
  then obtain s2' where
    r2: "acceptBid ?a [AString ''X'', AU256 7, AString ''AU_carol''] ?s2 = Inr s2'"
    and tr2: "trace s2' = ?t2"
    by (cases "acceptBid ?a [AString ''X'', AU256 7, AString ''AU_carol''] ?s2") auto
  have F: "unat (5 :: u64) \<le> 100" by simp
  from settlement_fee [of ?b "''X''" 7 "[]" ?s s' ?a "''X''" 7 "''AU_carol''" "[]" ?s2 s2']
  have "unat (5 :: u64) \<le> 100 \<longrightarrow>
     unat ((1000 :: u64) div 100 * 5) = unat (1000 :: u64) div 100 * unat (5 :: u64) \<and>
     unat ((1000 :: u64) - 1000 div 100 * 5) + unat ((1000 :: u64) div 100 * 5) =
       unat (1000 :: u64)"
    by blast
  with F r r2 tr tr2 show ?thesis by blast
qed


subsection \<open>Accepting a bid without an offer\<close>

lemma offer_key_no_bid_prefix:
  "\<not> prefix (BID_PREFIX @ c' @ ''_'' @ u256_toString t') (keyGenerator c t)"
  by (simp add: BID_PREFIX_def keyGenerator_def SELL_OFFER_PREFIX_def)

lemma resetBids_keeps_offer:
  assumes "resetBids ctx c' t' b s = Inr s'"
  shows "map_of (storage s') (keyGenerator c t) = map_of (storage s) (keyGenerator c t)"
proof -
  have "resetBids_loop ctx b
          (Storage_getKeys s (BID_PREFIX @ c' @ ''_'' @ u256_toString t')) s = Inr s'"
    using assms by (simp add: resetBids_def)
  from loop_storage [OF this, of "keyGenerator c t"] offer_key_no_bid_prefix [of c' t' c t]
  show ?thesis
    by (simp add: getKeys_iff)
qed

text \<open>
  Every step of \<open>acceptBid\<close> takes two states that differ only under the offer key to
  the same error or to two states that again differ only there: no read is of the offer
  key, and the scan of the bid keys does not enumerate it.
\<close>

lemma delete_keys_filter:
  "\<not> P k \<Longrightarrow> filter P (map fst (AList.delete k xs)) = filter P (map fst xs)"
  by (induction xs) auto

lemma sbo_map_of:
  assumes "same_but_offer ctx c t x y" and "k \<noteq> keyGenerator c t"
  shows "map_of (storage x) k = map_of (storage y) k"
proof -
  have "map_of (AList.delete (keyGenerator c t) (storage x)) k =
        map_of (AList.delete (keyGenerator c t) (storage y)) k"
    using assms(1) by (simp add: same_but_offer_def)
  with assms(2) show ?thesis by (simp add: delete_conv')
qed

lemma sbo_getKeys:
  assumes "same_but_offer ctx c t x y" and "\<not> prefix p (keyGenerator c t)"
  shows "Storage_getKeys x p = Storage_getKeys y p"
  using delete_keys_filter [of "prefix p" "keyGenerator c t" "storage x", OF assms(2)]
    delete_keys_filter [of "prefix p" "keyGenerator c t" "storage y", OF assms(2)] assms(1)
  by (simp add: Storage_getKeys_def same_but_offer_def)

lemma sbo_steps:
  assumes "same_but_offer ctx c t x y"
  shows "same_but_offer ctx c t (transferCoins a v x) (transferCoins a v y)"
    and "same_but_offer ctx c t (generateEvent e x) (generateEvent e y)"
    and "same_but_offer ctx c t (delete_entry k x) (delete_entry k y)"
    and "same_but_offer ctx c t (refund_step b k bid x) (refund_step b k bid y)"
  using assms delete_twist [of "keyGenerator c t" k "storage x"]
    delete_twist [of "keyGenerator c t" k "storage y"]
  by (simp_all add: same_but_offer_def host_simps Storage_has_simps refund_step_def)

lemma sbo_loop:
  "same_but_offer ctx c t x y \<Longrightarrow> keyGenerator c t \<notin> set ks \<Longrightarrow>
     rel_sum (=) (same_but_offer ctx c t) (resetBids_loop ctx b ks x) (resetBids_loop ctx b ks y)"
proof (induction ks arbitrary: x y)
  case Nil
  then show ?case by simp
next
  case (Cons k ks)
  then have k: "k \<noteq> keyGenerator c t" and ks: "keyGenerator c t \<notin> set ks" by auto
  note same = sbo_map_of [OF Cons.prems(1) k]
  show ?case
  proof (cases "map_of (storage x) k")
    case None
    with same show ?thesis by (simp add: Storage_get_def)
  next
    case (Some v)
    show ?thesis
    proof (cases "\<exists>bid. v = SBid bid")
      case True
      then obtain bid where v: "v = SBid bid" by blast
      have sx: "map_of (storage x) k = Some (SBid bid)" using Some v by simp
      have sy: "map_of (storage y) k = Some (SBid bid)" using Some v same by simp
      from Cons.IH [OF sbo_steps(4) [OF Cons.prems(1)] ks]
      show ?thesis by (simp only: loop_Cons_stored [OF sx] loop_Cons_stored [OF sy])
    next
      case False
      then have "deserialize_Bid v = None" by (cases v) auto
      with Some same show ?thesis by (simp add: Storage_get_def)
    qed
  qed
qed

lemma sbo_resetBids:
  assumes "same_but_offer ctx c t x y"
  shows "rel_sum (=) (same_but_offer ctx c t) (resetBids ctx c' t' b x) (resetBids ctx c' t' b y)"
proof -
  let ?P = "BID_PREFIX @ c' @ ''_'' @ u256_toString t'"
  have keys: "Storage_getKeys y ?P = Storage_getKeys x ?P"
    using sbo_getKeys [OF assms offer_key_no_bid_prefix] by simp
  have "keyGenerator c t \<notin> set (Storage_getKeys x ?P)"
    using offer_key_no_bid_prefix [of c' t' c t] by (simp add: getKeys_iff)
  from sbo_loop [OF assms this] show ?thesis
    unfolding resetBids_def keys .
qed

lemma sbo_call:
  assumes "same_but_offer ctx c t x y"
  shows "rel_sum (=) (same_but_offer ctx c t)
     (call_transferFrom operator c' from to t' coins x)
     (call_transferFrom operator c' from to t' coins y)"
  using assms by (simp add: call_transferFrom_def same_but_offer_def Storage_has_def)

lemma sbo_fee:
  assumes "same_but_offer ctx c t x y"
  shows "calculateMarketplaceFee x a = calculateMarketplaceFee y a"
proof -
  have "MARKETPLACE_FEE_KEY \<noteq> keyGenerator c t"
    by (simp add: MARKETPLACE_FEE_KEY_def keyGenerator_def SELL_OFFER_PREFIX_def)
  from sbo_map_of [OF assms this] show ?thesis
    by (simp add: calculateMarketplaceFee_def Storage_get_def)
qed

lemma sbo_del:
  assumes "same_but_offer ctx c t x y" and "k \<noteq> keyGenerator c t"
  shows "rel_sum (=) (same_but_offer ctx c t) (Storage_del ctx k x) (Storage_del ctx k y)"
  using sbo_map_of [OF assms] sbo_steps(3) [OF assms(1), of k]
  by (simp add: Storage_del_def Storage_has_def)

lemma sbo_del_offer:
  assumes "same_but_offer ctx c t x y"
  shows "Storage_del ctx (keyGenerator c t) x = Storage_del ctx (keyGenerator c t) y"
proof -
  have "delete_entry (keyGenerator c t) x = delete_entry (keyGenerator c t) y"
    using assms by (intro state.equality) (simp_all add: same_but_offer_def host_simps delete_entry_def)
  with assms show ?thesis
    by (auto simp: Storage_del_def same_but_offer_def)
qed

lemma rel_sum_bind:
  assumes "rel_sum (=) R r1 r2" and "\<And>x y. R x y \<Longrightarrow> f x = g y"
  shows "(case r1 of Inl e \<Rightarrow> Inl e | Inr x \<Rightarrow> f x) = (case r2 of Inl e \<Rightarrow> Inl e | Inr y \<Rightarrow> g y)"
  using assms by (cases r1; cases r2) auto

lemma acceptBid_offer_blind:
  assumes R: "same_but_offer ctx c t x y"
  shows "acceptBid ctx (AString c # AU256 t # AString b # rest) x =
         acceptBid ctx (AString c # AU256 t # AString b # rest) y"
proof -
  let ?bk = "bidKeyGenerator c t b"
  let ?ok = "keyGenerator c t"
  have bk: "?bk \<noteq> ?ok" by (rule bid_key_not_offer_key)
  define finish where "finish z =
     (case resetBids ctx c t b z of
        Inl e \<Rightarrow> Inl e
      | Inr s5 \<Rightarrow> Storage_del ctx ?ok s5)" for z
  define pay where "pay bd ownr feeAmount z =
     (case Storage_del ctx ?bk
             (generateEvent
                (caller ctx @ '' accepted a bid from '' @ b @ '' on '' @
                 c @ '' token '' @ u256_toString t @
                 '' for amount '' @ u64_toString (amount bd))
                (transferCoins ownr (amount bd - feeAmount) z)) of
        Inl e \<Rightarrow> Inl e
      | Inr s4 \<Rightarrow> finish s4)" for bd :: Bid and ownr feeAmount z
  define settle where "settle bd ownr z =
     (case calculateMarketplaceFee z (amount bd) of
        Inl e \<Rightarrow> Inl e
      | Inr feeAmount \<Rightarrow> pay bd ownr feeAmount z)" for bd :: Bid and ownr z
  have unfold: "acceptBid ctx (AString c # AU256 t # AString b # rest) s =
     (case map_of (storage s) ?bk of
        None \<Rightarrow> Inl (Abort ''Bid not found'')
      | Some v \<Rightarrow>
          (case deserialize_Bid v of
             None \<Rightarrow> Inl (Abort ''DESERIALIZATION_ERROR'')
           | Some bd \<Rightarrow>
               if ownerOf s c t \<noteq> caller ctx
               then Inl (Abort ''You are not the owner of the NFT'')
               else (case call_transferFrom (callee ctx) c (ownerOf s c t) b t 10000000 s of
                       Inl e \<Rightarrow> Inl e
                     | Inr s1 \<Rightarrow> settle bd (ownerOf s c t) s1)))" for s
    by (simp add: acceptBid_def Let_def getNFTOwner_def Storage_has_def Storage_get_def
          settle_def pay_def finish_def split: option.splits sum.splits)
  have finish_eq: "finish z = finish z'" if z: "same_but_offer ctx c t z z'" for z z'
    unfolding finish_def
    by (rule rel_sum_bind [OF sbo_resetBids [OF z]]) (rule sbo_del_offer)
  have pay_eq: "pay bd ownr fee z = pay bd ownr fee z'"
    if z: "same_but_offer ctx c t z z'" for bd ownr fee z z'
    unfolding pay_def
    by (rule rel_sum_bind [OF sbo_del [OF sbo_steps(2) [OF sbo_steps(1) [OF z]] bk]])
       (rule finish_eq)
  have settle_eq: "settle bd ownr z = settle bd ownr z'"
    if z: "same_but_offer ctx c t z z'" for bd ownr z z'
    unfolding settle_def sbo_fee [OF z]
    by (simp add: pay_eq [OF z] split: sum.splits)
  have reads: "map_of (storage x) ?bk = map_of (storage y) ?bk"
    by (rule sbo_map_of [OF R bk])
  have owner: "ownerOf x = ownerOf y"
    using R by (simp add: same_but_offer_def)
  have call: "(case call_transferFrom (callee ctx) c ownr b t 10000000 x of
                 Inl e \<Rightarrow> Inl e | Inr s1 \<Rightarrow> settle bd ownr s1) =
              (case call_transferFrom (callee ctx) c ownr b t 10000000 y of
                 Inl e \<Rightarrow> Inl e | Inr s1 \<Rightarrow> settle bd ownr s1)" for bd ownr
    by (rule rel_sum_bind [OF sbo_call [OF R]]) (rule settle_eq)
  show ?thesis
    by (simp only: unfold reads owner call)
qed

lemma acceptBid_Inr_strict:
  assumes "acceptBid ctx (AString c # AU256 t # AString b # rest) s = Inr s'"
  shows "\<exists>bid fee ev s1 s5.
     map_of (storage s) (bidKeyGenerator c t b) = Some (SBid bid) \<and>
     call_transferFrom (callee ctx) c (caller ctx) b t 10000000 s = Inr s1 \<and>
     resetBids ctx c t b
       (delete_entry (bidKeyGenerator c t b)
          (generateEvent ev (transferCoins (caller ctx) (amount bid - fee) s1))) = Inr s5 \<and>
     (strictDelete ctx \<longrightarrow> Storage_has s5 (keyGenerator c t)) \<and>
     s' = delete_entry (keyGenerator c t) s5"
  using assms
  unfolding acceptBid_def Let_def getNFTOwner_def Storage_get_def
  by (simp add: Storage_del_Inr split: if_splits option.splits sum.splits) blast

lemma acceptBid_needs_key:
  assumes "acceptBid ctx (AString c # AU256 t # AString b # rest) s = Inr s'"
    and "strictDelete ctx"
  shows "Storage_has s (keyGenerator c t)"
proof -
  from acceptBid_Inr_strict [OF assms(1)] assms(2) obtain bid fee ev s1 s5 where
    "map_of (storage s) (bidKeyGenerator c t b) = Some (SBid bid)" and
    call: "call_transferFrom (callee ctx) c (caller ctx) b t 10000000 s = Inr s1"
    and reset: "resetBids ctx c t b
       (delete_entry (bidKeyGenerator c t b)
          (generateEvent ev (transferCoins (caller ctx) (amount bid - fee) s1))) = Inr s5"
    and has: "Storage_has s5 (keyGenerator c t)"
    by blast
  from has resetBids_keeps_offer [OF reset, of c t] show ?thesis
    by (simp add: Storage_has_def host_simps delete_conv' call_transferFrom_Inr(1) [OF call]
          bid_key_not_offer_key [symmetric])
qed

text \<open>
  C9, as amended. \<open>acceptBid\<close> does not require a sell offer to exist or to be
  unexpired, because it never reads the offer. Take a state and put anything under the
  offer key of the token: an offer that is still open, an offer whose expiration time has
  passed, or, where the host lets a key that is not stored be deleted, nothing at all.
  The call has the same outcome each time: it fails with the same error, or it succeeds
  with the same effects and the same final state. The two calls make the same transfers,
  so this holds whether or not the host lets them through. A call that succeeds in a
  state holding the bid has moved the token to the bidder, has paid the caller the amount
  of the bid less the fee (in the arithmetic of \<open>u64\<close>), and ends with the deletion of
  the offer key. On a host that
  rejects the deletion of a key that is not stored, \<open>acceptBid\<close> fails when no offer
  is stored for the token.
\<close>

theorem acceptBid_without_offer:
  "(AList.delete (keyGenerator c t) st1 = AList.delete (keyGenerator c t) st2 \<and>
    (strictDelete ctx \<longrightarrow>
       (map_of st1 (keyGenerator c t) = None \<longleftrightarrow> map_of st2 (keyGenerator c t) = None)) \<longrightarrow>
    acceptBid ctx (AString c # AU256 t # AString b # rest) (s\<lparr>storage := st1\<rparr>) =
    acceptBid ctx (AString c # AU256 t # AString b # rest) (s\<lparr>storage := st2\<rparr>)) \<and>
   (acceptBid ctx (AString c # AU256 t # AString b # rest) s = Inr s' \<and>
    map_of (storage s) (bidKeyGenerator c t b) = Some (SBid bid) \<and>
    map_of (storage s) MARKETPLACE_FEE_KEY = Some (SU64 F) \<longrightarrow>
    ownerOf s' c t = b \<and>
    map_of (storage s') (keyGenerator c t) = None \<and>
    (\<exists>ev post.
       trace s' = trace s @
         [Call c ''transferFrom'' [AString (caller ctx), AString b, AU256 t] 10000000,
          Transfer (caller ctx) (amount bid - amount bid div 100 * F),
          Emit ev] @ post @ [Delete (keyGenerator c t)])) \<and>
   (strictDelete ctx \<and> \<not> Storage_has s (keyGenerator c t) \<longrightarrow>
    (\<exists>e. acceptBid ctx (AString c # AU256 t # AString b # rest) s = Inl e))"
proof (intro conjI impI)
  assume h: "AList.delete (keyGenerator c t) st1 = AList.delete (keyGenerator c t) st2 \<and>
    (strictDelete ctx \<longrightarrow>
       (map_of st1 (keyGenerator c t) = None \<longleftrightarrow> map_of st2 (keyGenerator c t) = None))"
  then have "same_but_offer ctx c t (s\<lparr>storage := st1\<rparr>) (s\<lparr>storage := st2\<rparr>)"
    by (simp add: same_but_offer_def Storage_has_def)
  then show "acceptBid ctx (AString c # AU256 t # AString b # rest) (s\<lparr>storage := st1\<rparr>) =
    acceptBid ctx (AString c # AU256 t # AString b # rest) (s\<lparr>storage := st2\<rparr>)"
    by (rule acceptBid_offer_blind)
next
  assume h: "acceptBid ctx (AString c # AU256 t # AString b # rest) s = Inr s' \<and>
    map_of (storage s) (bidKeyGenerator c t b) = Some (SBid bid) \<and>
    map_of (storage s) MARKETPLACE_FEE_KEY = Some (SU64 F)"
  then have r: "acceptBid ctx (AString c # AU256 t # AString b # rest) s = Inr s'"
    and stored: "map_of (storage s) (bidKeyGenerator c t b) = Some (SBid bid)"
    and F: "map_of (storage s) MARKETPLACE_FEE_KEY = Some (SU64 F)"
    by simp_all
  from acceptBid_Inr [OF r] stored obtain fee ev s1 s5 where
    call: "call_transferFrom (callee ctx) c (caller ctx) b t 10000000 s = Inr s1"
    and fee: "calculateMarketplaceFee s1 (amount bid) = Inr fee"
    and reset: "resetBids ctx c t b
       (delete_entry (bidKeyGenerator c t b)
          (generateEvent ev (transferCoins (caller ctx) (amount bid - fee) s1))) = Inr s5"
    and s': "s' = delete_entry (keyGenerator c t) s5"
    by auto
  have f: "fee = amount bid div 100 * F"
    using fee F by (simp add: calculateMarketplaceFee_Inr call_transferFrom_Inr(1) [OF call])
  define s4 where "s4 = delete_entry (bidKeyGenerator c t b)
          (generateEvent ev (transferCoins (caller ctx) (amount bid - fee) s1))"
  have "resetBids_loop ctx b
          (Storage_getKeys s4 (BID_PREFIX @ c @ ''_'' @ u256_toString t)) s4 = Inr s5"
    using reset by (simp add: resetBids_def s4_def)
  from loop_world [OF this] have "ownerOf s5 = ownerOf s1"
    by (simp add: s4_def host_simps)
  then show "ownerOf s' c t = b"
    by (simp add: s' host_simps call_transferFrom_Inr(5) [OF call])
  show "map_of (storage s') (keyGenerator c t) = None"
    by (simp add: s' host_simps delete_conv')
  from resetBids_Inr(3) [OF reset] obtain R where "trace s5 = trace s4 @ R"
    unfolding s4_def by blast
  then have "trace s' = trace s @
         [Call c ''transferFrom'' [AString (caller ctx), AString b, AU256 t] 10000000,
          Transfer (caller ctx) (amount bid - amount bid div 100 * F),
          Emit ev] @ (Delete (bidKeyGenerator c t b) # R) @ [Delete (keyGenerator c t)]"
    by (simp add: s' s4_def f host_simps call_transferFrom_Inr(2) [OF call])
  then show "\<exists>ev post.
       trace s' = trace s @
         [Call c ''transferFrom'' [AString (caller ctx), AString b, AU256 t] 10000000,
          Transfer (caller ctx) (amount bid - amount bid div 100 * F),
          Emit ev] @ post @ [Delete (keyGenerator c t)]"
    by blast
next
  assume h: "strictDelete ctx \<and> \<not> Storage_has s (keyGenerator c t)"
  show "\<exists>e. acceptBid ctx (AString c # AU256 t # AString b # rest) s = Inl e"
  proof (rule not_Inr_Inl, intro allI notI)
    fix s2 assume "acceptBid ctx (AString c # AU256 t # AString b # rest) s = Inr s2"
    from acceptBid_needs_key [OF this] h show False by simp
  qed
qed

text \<open>
  The claim as first stated has \<open>acceptBid\<close> succeed for every state with the bid and
  the owner as caller. Alice has withdrawn her approval of the marketplace: Carol's bid is
  stored, Alice owns the token, and the call fails in \<^verbatim>\<open>transferFrom\<close>.
\<close>

theorem acceptBid_without_offer_counterexample:
  "map_of (storage ((ex_state (ex_config @
       [ex_offer 1000 1800003600000, ex_bid ''AU_carol'' 250]))
       \<lparr>isApprovedForAll := (\<lambda>c ownr opr. False)\<rparr>))
     (bidKeyGenerator ''X'' 7 ''AU_carol'') =
     Some (SBid \<lparr>bidder = ''AU_carol'', amount = 250, timestamp = 1800000000000\<rparr>) \<and>
   ownerOf ((ex_state (ex_config @
       [ex_offer 1000 1800003600000, ex_bid ''AU_carol'' 250]))
       \<lparr>isApprovedForAll := (\<lambda>c ownr opr. False)\<rparr>) ''X'' 7 =
     caller (ex_ctx ''AU_alice'' 1800000000000 0) \<and>
   acceptBid (ex_ctx ''AU_alice'' 1800000000000 0)
     [AString ''X'', AU256 7, AString ''AU_carol'']
     ((ex_state (ex_config @ [ex_offer 1000 1800003600000, ex_bid ''AU_carol'' 250]))
       \<lparr>isApprovedForAll := (\<lambda>c ownr opr. False)\<rparr>) =
     Inl (CallFailed ''transferFrom'')"
  by (simp add: acceptBid_def eval_defs settle_eval)

text \<open>
  Carol's bid of 250 and Bob's of 100 are on token 7. Alice's call has the same outcome
  with an offer that is still open as with one that expired long ago: it succeeds, and
  the datastore and the effects are as listed. On a host that lets an absent key be
  deleted the outcome is also the same with no offer stored; on the host of the examples
  the call with no offer stored fails.
\<close>

theorem acceptBid_without_offer_witness:
  "now (ex_ctx ''AU_alice'' 1800000000000 0) <
     expirationTime (ex_offer_record 1000 1800003600000) \<and>
   expirationTime (ex_offer_record 1000 1700000000000) <
     now (ex_ctx ''AU_alice'' 1800000000000 0) \<and>
   acceptBid (ex_ctx ''AU_alice'' 1800000000000 0)
     [AString ''X'', AU256 7, AString ''AU_carol'']
     (ex_state (ex_config @ [ex_offer 1000 1800003600000,
                             ex_bid ''AU_bob'' 100, ex_bid ''AU_carol'' 250])) =
   acceptBid (ex_ctx ''AU_alice'' 1800000000000 0)
     [AString ''X'', AU256 7, AString ''AU_carol'']
     (ex_state (ex_config @ [ex_offer 1000 1700000000000,
                             ex_bid ''AU_bob'' 100, ex_bid ''AU_carol'' 250])) \<and>
   acceptBid ((ex_ctx ''AU_alice'' 1800000000000 0)\<lparr>strictDelete := False\<rparr>)
     [AString ''X'', AU256 7, AString ''AU_carol'']
     (ex_state (ex_config @ [ex_offer 1000 1800003600000,
                             ex_bid ''AU_bob'' 100, ex_bid ''AU_carol'' 250])) =
   acceptBid ((ex_ctx ''AU_alice'' 1800000000000 0)\<lparr>strictDelete := False\<rparr>)
     [AString ''X'', AU256 7, AString ''AU_carol'']
     (ex_state (ex_config @ [ex_bid ''AU_bob'' 100, ex_bid ''AU_carol'' 250])) \<and>
   (\<exists>s'. acceptBid (ex_ctx ''AU_alice'' 1800000000000 0)
          [AString ''X'', AU256 7, AString ''AU_carol'']
          (ex_state (ex_config @ [ex_offer 1000 1700000000000,
                                  ex_bid ''AU_bob'' 100, ex_bid ''AU_carol'' 250])) = Inr s' \<and>
      storage s' = ex_config \<and>
      ownerOf s' ''X'' 7 = ''AU_carol'' \<and>
      map_of (storage s') (keyGenerator ''X'' 7) = None \<and>
      trace s' =
        [Call ''X'' ''transferFrom'' [AString ''AU_alice'', AString ''AU_carol'', AU256 7]
           10000000,
         Transfer ''AU_alice'' 240,
         Emit ''AU_alice accepted a bid from AU_carol on X token 7 for amount 250'',
         Delete ''bid_X_7_AU_carol'',
         Transfer ''AU_bob'' 100, Delete ''bid_X_7_AU_bob'',
         Delete ''sellOffer_X_7'']) \<and>
   \<not> Storage_has (ex_state (ex_config @ [ex_bid ''AU_bob'' 100, ex_bid ''AU_carol'' 250]))
       (keyGenerator ''X'' 7) \<and>
   (\<exists>e. acceptBid (ex_ctx ''AU_alice'' 1800000000000 0)
          [AString ''X'', AU256 7, AString ''AU_carol'']
          (ex_state (ex_config @ [ex_bid ''AU_bob'' 100, ex_bid ''AU_carol'' 250])) = Inl e)"
proof -
  let ?live = "ex_config @ [ex_offer 1000 1800003600000,
                            ex_bid ''AU_bob'' 100, ex_bid ''AU_carol'' 250]"
  let ?dead = "ex_config @ [ex_offer 1000 1700000000000,
                            ex_bid ''AU_bob'' 100, ex_bid ''AU_carol'' 250]"
  let ?none = "ex_config @ [ex_bid ''AU_bob'' 100, ex_bid ''AU_carol'' 250]"
  let ?a = "ex_ctx ''AU_alice'' 1800000000000 0"
  let ?p = "?a\<lparr>strictDelete := False\<rparr>"
  let ?args = "[AString ''X'', AU256 7, AString ''AU_carol'']"
  let ?bid = "\<lparr>bidder = ''AU_carol'', amount = 250, timestamp = 1800000000000\<rparr>"
  have times: "now ?a < expirationTime (ex_offer_record 1000 1800003600000)"
    "expirationTime (ex_offer_record 1000 1700000000000) < now ?a"
    by (simp_all add: ex_defs)
  have st: "(ex_state [])\<lparr>storage := xs\<rparr> = ex_state xs" for xs
    by (simp add: ex_state_def)
  have d1: "AList.delete (keyGenerator ''X'' 7) ?live = AList.delete (keyGenerator ''X'' 7) ?dead \<and>
    (strictDelete ?a \<longrightarrow> (map_of ?live (keyGenerator ''X'' 7) = None \<longleftrightarrow>
                          map_of ?dead (keyGenerator ''X'' 7) = None))"
    by (simp add: ex_defs ex_keys)
  have d2: "AList.delete (keyGenerator ''X'' 7) ?live = AList.delete (keyGenerator ''X'' 7) ?none \<and>
    (strictDelete ?p \<longrightarrow> (map_of ?live (keyGenerator ''X'' 7) = None \<longleftrightarrow>
                          map_of ?none (keyGenerator ''X'' 7) = None))"
    by (simp add: ex_defs ex_keys)
  have e1: "acceptBid ?a ?args (ex_state ?live) = acceptBid ?a ?args (ex_state ?dead)"
    using acceptBid_without_offer [where c = "''X''" and t = 7 and ?st1.0 = ?live
        and ?st2.0 = ?dead and ctx = ?a and b = "''AU_carol''" and rest = "[]"
        and s = "ex_state []", unfolded st, THEN conjunct1, rule_format, OF d1] .
  have e2: "acceptBid ?p ?args (ex_state ?live) = acceptBid ?p ?args (ex_state ?none)"
    using acceptBid_without_offer [where c = "''X''" and t = 7 and ?st1.0 = ?live
        and ?st2.0 = ?none and ctx = ?p and b = "''AU_carol''" and rest = "[]"
        and s = "ex_state []", unfolded st, THEN conjunct1, rule_format, OF d2] .
  have "map_sum id (\<lambda>s'. (storage s', trace s')) (acceptBid ?a ?args (ex_state ?dead)) =
        Inr (ex_config,
          [Call ''X'' ''transferFrom'' [AString ''AU_alice'', AString ''AU_carol'', AU256 7]
             10000000,
           Transfer ''AU_alice'' 240,
           Emit ''AU_alice accepted a bid from AU_carol on X token 7 for amount 250'',
           Delete ''bid_X_7_AU_carol'',
           Transfer ''AU_bob'' 100, Delete ''bid_X_7_AU_bob'',
           Delete ''sellOffer_X_7''])"
    by (simp add: acceptBid_def eval_defs settle_eval)
  then obtain s' where
    r: "acceptBid ?a ?args (ex_state ?dead) = Inr s'"
    and sto: "storage s' = ex_config"
    and tr: "trace s' =
        [Call ''X'' ''transferFrom'' [AString ''AU_alice'', AString ''AU_carol'', AU256 7]
           10000000,
         Transfer ''AU_alice'' 240,
         Emit ''AU_alice accepted a bid from AU_carol on X token 7 for amount 250'',
         Delete ''bid_X_7_AU_carol'',
         Transfer ''AU_bob'' 100, Delete ''bid_X_7_AU_bob'',
         Delete ''sellOffer_X_7'']"
    by (cases "acceptBid ?a ?args (ex_state ?dead)") auto
  have stored: "map_of (storage (ex_state ?dead)) (bidKeyGenerator ''X'' 7 ''AU_carol'') =
      Some (SBid ?bid)"
    "map_of (storage (ex_state ?dead)) MARKETPLACE_FEE_KEY = Some (SU64 5)"
    by (simp_all add: eval_defs MARKETPLACE_FEE_KEY_def)
  from acceptBid_without_offer [where c = "''X''" and t = 7 and ctx = ?a
      and b = "''AU_carol''" and rest = "[]" and s = "ex_state ?dead" and s' = s'
      and bid = ?bid and F = 5] r stored
  have gone: "ownerOf s' ''X'' 7 = ''AU_carol'' \<and>
      map_of (storage s') (keyGenerator ''X'' 7) = None"
    by blast
  have absent: "strictDelete ?a \<and> \<not> Storage_has (ex_state ?none) (keyGenerator ''X'' 7)"
    by (simp add: eval_defs)
  from acceptBid_without_offer [where c = "''X''" and t = 7 and ctx = ?a
      and b = "''AU_carol''" and rest = "[]" and s = "ex_state ?none"] absent
  have fails: "\<exists>e. acceptBid ?a ?args (ex_state ?none) = Inl e" by blast
  from times e1 e2 r sto gone tr absent fails show ?thesis by blast
qed


subsection \<open>Bidding again\<close>

lemma filter_present_key:
  "distinct (map fst xs) \<Longrightarrow> map_of xs k = Some v \<Longrightarrow>
     filter (\<lambda>kv. fst kv = k) xs = [(k, v)]"
proof (induction xs)
  case Nil
  then show ?case by simp
next
  case (Cons x xs)
  show ?case
  proof (cases "fst x = k")
    case True
    with Cons.prems have "x = (k, v)" and "k \<notin> fst ` set xs"
      by (auto simp: prod_eq_iff)
    then show ?thesis by (simp add: filter_absent_key)
  next
    case False
    with Cons show ?thesis by auto
  qed
qed

lemma placeBid_again:
  assumes "placeBid ctx (AString c # AU256 t # rest) s = Inr s'"
    and "map_of (storage s) (bidKeyGenerator c t (caller ctx)) = Some (SBid old)"
  shows "\<exists>ev. s' = generateEvent ev
            (Storage_set (bidKeyGenerator c t (caller ctx))
               (SBid \<lparr>bidder = caller ctx, amount = transferredCoins ctx, timestamp = now ctx\<rparr>)
               (transferCoins (bidder old) (amount old) s))"
  using assms(1)
  by (auto simp: placeBid_def Let_def stored_value [OF assms(2)] split: if_splits)

text \<open>
  C5. When a bidder whose bid on a collection and token is stored places a bid on it
  again and the call goes through, the trace of the call is the refund of the old bid's
  full amount to that bidder, then the write of the new bid, then the event; afterwards
  the datastore holds exactly one record under the bidder's key, the new bid, and at most
  one record under any bid key.
\<close>

theorem placeBid_replaces:
  assumes run: "placeBid ctx (AString c # AU256 t # rest) s = Inr s'"
    and stored: "map_of (storage s) (bidKeyGenerator c t (caller ctx)) = Some (SBid old)"
    and own: "bidder old = caller ctx"
    and d: "distinct (map fst (storage s))"
  shows "(\<exists>ev. trace s' = trace s @
            [Transfer (caller ctx) (amount old),
             Write (bidKeyGenerator c t (caller ctx))
               (SBid \<lparr>bidder = caller ctx, amount = transferredCoins ctx,
                      timestamp = now ctx\<rparr>),
             Emit ev]) \<and>
         bids_for s' c t (caller ctx) =
           [(bidKeyGenerator c t (caller ctx),
             SBid \<lparr>bidder = caller ctx, amount = transferredCoins ctx,
                    timestamp = now ctx\<rparr>)] \<and>
         distinct (map fst (storage s')) \<and>
         (\<forall>c' t' b'. length (bids_for s' c' t' b') \<le> 1)"
proof -
  let ?k = "bidKeyGenerator c t (caller ctx)"
  let ?new = "SBid \<lparr>bidder = caller ctx, amount = transferredCoins ctx, timestamp = now ctx\<rparr>"
  from placeBid_again [OF run stored] obtain ev where
    s': "s' = generateEvent ev (Storage_set ?k ?new (transferCoins (bidder old) (amount old) s))"
    by blast
  have tr: "trace s' = trace s @ [Transfer (caller ctx) (amount old), Write ?k ?new, Emit ev]"
    by (simp add: s' host_simps own)
  have st: "storage s' = AList.update ?k ?new (storage s)"
    by (simp add: s' host_simps)
  have dd: "distinct (map fst (storage s'))"
    using d by (simp add: st distinct_update)
  have "map_of (storage s') ?k = Some ?new"
    by (simp add: st update_conv')
  from filter_present_key [OF dd this]
  have one: "bids_for s' c t (caller ctx) = [(?k, ?new)]"
    by (simp add: bids_for_def)
  have atmost: "\<forall>c' t' b'. length (bids_for s' c' t' b') \<le> 1"
    unfolding bids_for_def using distinct_keys_one [OF dd] by blast
  from tr one dd atmost show ?thesis by blast
qed

text \<open>
  Bob has bid 100 on token 7 and bids 150: he is refunded 100 before 150 is recorded,
  and the store holds one bid of 150 for him.
\<close>

theorem placeBid_replaces_witness:
  "\<exists>s'. placeBid (ex_ctx ''AU_bob'' 1800000000000 150) [AString ''X'', AU256 7]
          (ex_state (ex_config @ [ex_offer 1000 1800003600000, ex_bid ''AU_bob'' 100])) =
          Inr s' \<and>
     trace s' =
       [Transfer ''AU_bob'' 100,
        Write ''bid_X_7_AU_bob''
          (SBid \<lparr>bidder = ''AU_bob'', amount = 150, timestamp = 1800000000000\<rparr>),
        Emit ''AU_bob placed a bid on X token 7 with amount 150''] \<and>
     storage s' = ex_config @ [ex_offer 1000 1800003600000, ex_bid ''AU_bob'' 150] \<and>
     bids_for s' ''X'' 7 ''AU_bob'' = [ex_bid ''AU_bob'' 150]"
proof -
  let ?ctx = "ex_ctx ''AU_bob'' 1800000000000 150"
  let ?s = "ex_state (ex_config @ [ex_offer 1000 1800003600000, ex_bid ''AU_bob'' 100])"
  let ?old = "\<lparr>bidder = ''AU_bob'', amount = 100, timestamp = 1800000000000\<rparr>"
  have "map_sum id (\<lambda>s'. (storage s', trace s'))
          (placeBid ?ctx [AString ''X'', AU256 7] ?s) =
        Inr (ex_config @ [ex_offer 1000 1800003600000, ex_bid ''AU_bob'' 150],
          [Transfer ''AU_bob'' 100,
           Write ''bid_X_7_AU_bob''
             (SBid \<lparr>bidder = ''AU_bob'', amount = 150, timestamp = 1800000000000\<rparr>),
           Emit ''AU_bob placed a bid on X token 7 with amount 150''])"
    by (simp add: placeBid_def eval_defs settle_eval)
  then obtain s' where r: "placeBid ?ctx [AString ''X'', AU256 7] ?s = Inr s'"
    and st: "storage s' = ex_config @ [ex_offer 1000 1800003600000, ex_bid ''AU_bob'' 150]"
    and tr: "trace s' =
       [Transfer ''AU_bob'' 100,
        Write ''bid_X_7_AU_bob''
          (SBid \<lparr>bidder = ''AU_bob'', amount = 150, timestamp = 1800000000000\<rparr>),
        Emit ''AU_bob placed a bid on X token 7 with amount 150'']"
    by (cases "placeBid ?ctx [AString ''X'', AU256 7] ?s") auto
  have stored: "map_of (storage ?s) (bidKeyGenerator ''X'' 7 (caller ?ctx)) = Some (SBid ?old)"
    by (simp add: eval_defs)
  have own: "bidder ?old = caller ?ctx"
    by (simp add: ex_defs)
  have d: "distinct (map fst (storage ?s))"
    by (simp add: ex_defs)
  from placeBid_replaces [OF r stored own d]
  have "bids_for s' ''X'' 7 ''AU_bob'' = [ex_bid ''AU_bob'' 150]"
    by (simp add: ex_defs ex_keys)
  with r st tr show ?thesis by blast
qed


subsection \<open>One offer per token\<close>

lemma resetBids_distinct:
  "resetBids ctx c t b s = Inr s' \<Longrightarrow> distinct (map fst (storage s)) \<Longrightarrow>
     distinct (map fst (storage s'))"
  unfolding resetBids_def by (rule loop_distinct)

lemma call_transferFrom_storage:
  "call_transferFrom operator c from to t coins s = Inr s1 \<Longrightarrow> storage s1 = storage s"
  by (rule call_transferFrom_Inr(1))

lemma placeBid_distinct:
  assumes "placeBid ctx args s = Inr s'" and "distinct (map fst (storage s))"
  shows "distinct (map fst (storage s'))"
proof -
  have "\<exists>k v. storage s' = AList.update k v (storage s)"
    using assms(1) unfolding placeBid_def Let_def
    by (fastforce simp: host_simps Storage_get_def
          split: sum.splits prod.splits if_splits option.splits)
  with assms(2) show ?thesis by (auto simp: distinct_update)
qed

lemma removeBid_distinct:
  assumes "removeBid ctx args s = Inr s'" and "distinct (map fst (storage s))"
  shows "distinct (map fst (storage s'))"
proof -
  have "\<exists>k. storage s' = AList.delete k (storage s)"
    using assms(1) unfolding removeBid_def Let_def
    by (fastforce simp: host_simps Storage_get_def Storage_del_Inr
          split: sum.splits prod.splits if_splits option.splits)
  with assms(2) show ?thesis by (auto simp: distinct_delete)
qed

lemma autonomousDeleteOffer_distinct:
  assumes "autonomousDeleteOffer ctx args s = Inr s'" and "distinct (map fst (storage s))"
  shows "distinct (map fst (storage s'))"
proof -
  have "\<exists>k. storage s' = AList.delete k (storage s)"
    using assms(1) unfolding autonomousDeleteOffer_def Let_def
    by (fastforce simp: host_simps Storage_del_Inr
          split: sum.splits prod.splits if_splits)
  with assms(2) show ?thesis by (auto simp: distinct_delete)
qed

lemma adminDeleteCollection_distinct:
  assumes "adminDeleteCollection ctx args s = Inr s'" and "distinct (map fst (storage s))"
  shows "distinct (map fst (storage s'))"
proof -
  have "\<exists>k. storage s' = AList.delete k (storage s)"
    using assms(1) unfolding adminDeleteCollection_def Let_def
    by (fastforce simp: host_simps Storage_del_Inr
          split: sum.splits prod.splits if_splits)
  with assms(2) show ?thesis by (auto simp: distinct_delete)
qed

lemma removeSellOffer_distinct:
  assumes "removeSellOffer ctx args s = Inr s'" and "distinct (map fst (storage s))"
  shows "distinct (map fst (storage s'))"
proof -
  have "\<exists>c t k s1. resetBids ctx c t [] s = Inr s1 \<and> storage s' = AList.delete k (storage s1)"
    using assms(1) unfolding removeSellOffer_def Let_def
    by (fastforce simp: host_simps Storage_del_Inr
          split: sum.splits prod.splits if_splits)
  then obtain c t k s1 where r: "resetBids ctx c t [] s = Inr s1"
    and st: "storage s' = AList.delete k (storage s1)" by blast
  from resetBids_distinct [OF r assms(2)] show ?thesis
    by (simp add: st distinct_delete)
qed

lemma nextString_Inr: "nextString a m = Inr (x, r) \<longleftrightarrow> a = AString x # r"
  by (induction a m rule: nextString.induct) auto

lemma nextU256_Inr: "nextU256 a m = Inr (x, r) \<longleftrightarrow> a = AU256 x # r"
  by (induction a m rule: nextU256.induct) auto

lemma nextU64_Inr: "nextU64 a m = Inr (x, r) \<longleftrightarrow> a = AU64 x # r"
  by (induction a m rule: nextU64.induct) auto

lemma acceptBid_args:
  assumes "acceptBid ctx args s = Inr s'"
  shows "\<exists>c t b rest. args = AString c # AU256 t # AString b # rest"
proof (cases "nextString args ''Collection address not entered.''")
  case (Inl e)
  with assms show ?thesis by (simp add: acceptBid_def)
next
  case (Inr p)
  obtain c a1 where p: "p = (c, a1)" by (cases p)
  show ?thesis
  proof (cases "nextU256 a1 ''TokenID not entered.''")
    case (Inl e)
    with assms Inr p show ?thesis by (simp add: acceptBid_def)
  next
    case Inr2: (Inr q)
    obtain t a2 where q: "q = (t, a2)" by (cases q)
    show ?thesis
    proof (cases "nextString a2 ''Bidder address not entered.''")
      case (Inl e)
      with assms Inr p Inr2 q show ?thesis by (simp add: acceptBid_def)
    next
      case Inr3: (Inr r)
      obtain b a3 where r: "r = (b, a3)" by (cases r)
      from Inr p Inr2 q Inr3 r show ?thesis
        by (simp add: nextString_Inr nextU256_Inr)
    qed
  qed
qed

lemma buyOffer_args:
  assumes "buyOffer ctx args s = Inr s'"
  shows "\<exists>c t rest. args = AString c # AU256 t # rest"
proof (cases "nextString args ''Collection address not entered.''")
  case (Inl e)
  with assms show ?thesis by (simp add: buyOffer_def)
next
  case (Inr p)
  obtain c a1 where p: "p = (c, a1)" by (cases p)
  show ?thesis
  proof (cases "nextU256 a1 ''TokenID not entered.''")
    case (Inl e)
    with assms Inr p show ?thesis by (simp add: buyOffer_def)
  next
    case Inr2: (Inr q)
    obtain t a2 where q: "q = (t, a2)" by (cases q)
    from Inr p Inr2 q show ?thesis
      by (simp add: nextString_Inr nextU256_Inr)
  qed
qed

lemma acceptBid_distinct:
  assumes "acceptBid ctx args s = Inr s'" and "distinct (map fst (storage s))"
  shows "distinct (map fst (storage s'))"
proof -
  from acceptBid_args [OF assms(1)] obtain c t b rest
    where args: "args = AString c # AU256 t # AString b # rest" by blast
  from acceptBid_Inr [OF assms(1) [unfolded args]] obtain bid fee ev s1 s5 where
    "map_of (storage s) (bidKeyGenerator c t b) = Some (SBid bid)"
    and call: "call_transferFrom (callee ctx) c (caller ctx) b t 10000000 s = Inr s1"
    and reset: "resetBids ctx c t b
       (delete_entry (bidKeyGenerator c t b)
          (generateEvent ev (transferCoins (caller ctx) (amount bid - fee) s1))) = Inr s5"
    and s': "s' = delete_entry (keyGenerator c t) s5"
    by blast
  have "distinct (map fst (storage (delete_entry (bidKeyGenerator c t b)
          (generateEvent ev (transferCoins (caller ctx) (amount bid - fee) s1)))))"
    using assms(2) by (simp add: host_simps call_transferFrom_Inr(1) [OF call] distinct_delete)
  from resetBids_distinct [OF reset this] show ?thesis
    by (simp add: s' host_simps distinct_delete)
qed

lemma buyOffer_distinct:
  assumes "buyOffer ctx args s = Inr s'" and "distinct (map fst (storage s))"
  shows "distinct (map fst (storage s'))"
proof -
  from buyOffer_args [OF assms(1)] obtain c t rest
    where args: "args = AString c # AU256 t # rest" by blast
  from buyOffer_Inr [OF assms(1) [unfolded args]] obtain offer fee mo ev s1 s5 where
    "map_of (storage s) (keyGenerator c t) = Some (SOffer offer)"
    and call: "call_transferFrom (callee ctx) c (ownerOf s c t) (caller ctx) t 10000000 s = Inr s1"
    and reset: "resetBids ctx c t []
       (generateEvent ev
          (transferCoins (ownerOf s c t) (price offer - fee)
             (transferCoins mo fee s1))) = Inr s5"
    and s': "s' = delete_entry (keyGenerator c t) s5"
    by blast
  have "distinct (map fst (storage (generateEvent ev
          (transferCoins (ownerOf s c t) (price offer - fee)
             (transferCoins mo fee s1)))))"
    using assms(2) by (simp add: host_simps call_transferFrom_Inr(1) [OF call])
  from resetBids_distinct [OF reset this] show ?thesis
    by (simp add: s' host_simps distinct_delete)
qed

lemma sellOffer_distinct:
  assumes "sellOffer ctx args s = Inr s'" and "distinct (map fst (storage s))"
  shows "distinct (map fst (storage s'))"
  using sellOffer_storage [OF assms(1)] assms(2) by (auto simp: distinct_update)

lemma dispatch_distinct:
  assumes "dispatch f ctx args s = Inr s'" and "distinct (map fst (storage s))"
  shows "distinct (map fst (storage s'))"
  using assms
  by (cases f)
     (auto intro: sellOffer_distinct removeSellOffer_distinct buyOffer_distinct
        autonomousDeleteOffer_distinct placeBid_distinct removeBid_distinct acceptBid_distinct
        adminDeleteCollection_distinct)

text \<open>
  C4. In a datastore (one value per key), \<open>sellOffer\<close> on a collection and token whose
  offer key is already stored aborts and leaves the state as it was, in v2.2 and in the
  earlier marketplace; and after a call of any function of v2.2 in the table
  \<open>dispatch\<close>, or of the earlier \<open>sellOffer\<close>, successful or not, the store is still
  one value per key, so it holds at most one sell-offer record for any collection and
  token.
\<close>

theorem sellOffer_unique:
  assumes d: "distinct (map fst (storage s))"
  shows "(Storage_has s (keyGenerator c t) \<longrightarrow>
           (\<exists>e. invoke (sellOffer ctx (AString c # AU256 t # rest)) s = (Some e, s)) \<and>
           (\<exists>e. invoke (sellOffer_v1 ctx (AString c # AU256 t # rest)) s = (Some e, s))) \<and>
         (\<forall>s'. (\<exists>f. s' = snd (invoke (dispatch f ctx args) s)) \<or>
               s' = snd (invoke (sellOffer_v1 ctx args) s) \<longrightarrow>
               distinct (map fst (storage s')) \<and> length (offers_for s' c' t') \<le> 1)"
proof (intro conjI impI allI)
  assume h: "Storage_has s (keyGenerator c t)"
  show "\<exists>e. invoke (sellOffer ctx (AString c # AU256 t # rest)) s = (Some e, s)"
    using h by (simp add: invoke_def sellOffer_def Let_def split: sum.splits prod.splits)
  show "\<exists>e. invoke (sellOffer_v1 ctx (AString c # AU256 t # rest)) s = (Some e, s)"
    using h by (simp add: invoke_def sellOffer_v1_def Let_def split: sum.splits prod.splits)
next
  fix s'
  assume a: "(\<exists>f. s' = snd (invoke (dispatch f ctx args) s)) \<or>
             s' = snd (invoke (sellOffer_v1 ctx args) s)"
  then show dd: "distinct (map fst (storage s'))"
  proof
    assume "\<exists>f. s' = snd (invoke (dispatch f ctx args) s)"
    then obtain f where f: "s' = snd (invoke (dispatch f ctx args) s)" by blast
    from invoke_cases [of "dispatch f ctx args" s] show ?thesis
    proof
      assume "snd (invoke (dispatch f ctx args) s) = s"
      with f d show ?thesis by simp
    next
      assume "dispatch f ctx args s = Inr (snd (invoke (dispatch f ctx args) s))"
      from dispatch_distinct [OF this d] f show ?thesis by simp
    qed
  next
    assume v1: "s' = snd (invoke (sellOffer_v1 ctx args) s)"
    from invoke_cases [of "sellOffer_v1 ctx args" s] show ?thesis
    proof
      assume "snd (invoke (sellOffer_v1 ctx args) s) = s"
      with v1 d show ?thesis by simp
    next
      assume "sellOffer_v1 ctx args s = Inr (snd (invoke (sellOffer_v1 ctx args) s))"
      from sellOffer_v1_storage [OF this] v1 d show ?thesis
        by (auto simp: distinct_update)
    qed
  qed
  show "length (offers_for s' c' t') \<le> 1"
    unfolding offers_for_def by (rule distinct_keys_one [OF dd])
qed

text \<open>
  Alice cannot list token 7 twice; listing token 8 leaves one record for it.
\<close>

theorem sellOffer_unique_witness:
  "distinct (map fst (storage (ex_state (ex_config @ [ex_offer 1000 1800003600000])))) \<and>
   Storage_has (ex_state (ex_config @ [ex_offer 1000 1800003600000])) (keyGenerator ''X'' 7) \<and>
   (\<exists>e. invoke (sellOffer (ex_ctx ''AU_alice'' 1800000000000 0)
                  [AString ''X'', AU256 7, AU64 2000, AU64 3600000])
           (ex_state (ex_config @ [ex_offer 1000 1800003600000])) =
         (Some e, ex_state (ex_config @ [ex_offer 1000 1800003600000]))) \<and>
   length (offers_for
             (snd (invoke (sellOffer (ex_ctx ''AU_alice'' 1800000000000 0)
                             [AString ''X'', AU256 8, AU64 2000, AU64 3600000])
                     (ex_state (ex_config @ [ex_offer 1000 1800003600000]))))
             ''X'' 8) \<le> 1"
proof -
  let ?s = "ex_state (ex_config @ [ex_offer 1000 1800003600000])"
  have d: "distinct (map fst (storage ?s))"
    by (simp add: ex_defs)
  have h: "Storage_has ?s (keyGenerator ''X'' 7)"
    by (simp add: eval_defs)
  have f: "\<exists>f. snd (invoke (sellOffer (ex_ctx ''AU_alice'' 1800000000000 0)
                             [AString ''X'', AU256 8, AU64 2000, AU64 3600000]) ?s) =
      snd (invoke (dispatch f (ex_ctx ''AU_alice'' 1800000000000 0)
                     [AString ''X'', AU256 8, AU64 2000, AU64 3600000]) ?s)"
    by (rule exI [of _ E_sellOffer]) simp
  from sellOffer_unique [OF d, of "''X''" 7 "ex_ctx ''AU_alice'' 1800000000000 0"
      "[AU64 2000, AU64 3600000]" "[AString ''X'', AU256 8, AU64 2000, AU64 3600000]" "''X''" 8]
  show ?thesis using d h f by blast
qed


end
